theory Spec2Isabelle
  imports Main "HOL-Library.Multiset" "HOL-Library.Monad_Syntax"
begin

section \<open>The release-name parser of package naming\<close>

text \<open>
  A shallow embedding of the Go package \<^verbatim>\<open>naming\<close>: the single-string parser
  \<^verbatim>\<open>parseString\<close>, the path reconciliation \<^verbatim>\<open>ParseFile\<close> with its reflective
  merge \<^verbatim>\<open>combineResults\<close>, and the string sanitizers. Go strings are byte
  sequences and are modelled as \<^typ>\<open>string\<close>; \<^verbatim>\<open>int64\<close> values are \<^typ>\<open>int\<close>
  with the range check of the conversion written out.
\<close>

subsection \<open>Functions of the Go standard library, as the package calls them\<close>

text \<open>\<^verbatim>\<open>strings.TrimLeft\<close>, \<^verbatim>\<open>strings.TrimRight\<close>, \<^verbatim>\<open>strings.Trim\<close> with an
  ASCII cutset, and \<^verbatim>\<open>strings.TrimSuffix\<close>.\<close>

definition strings_TrimLeft :: "string \<Rightarrow> string \<Rightarrow> string" where
  "strings_TrimLeft s cutset = dropWhile (\<lambda>c. c \<in> set cutset) s"

definition strings_TrimRight :: "string \<Rightarrow> string \<Rightarrow> string" where
  "strings_TrimRight s cutset = rev (dropWhile (\<lambda>c. c \<in> set cutset) (rev s))"

definition strings_Trim :: "string \<Rightarrow> string \<Rightarrow> string" where
  "strings_Trim s cutset = strings_TrimRight (strings_TrimLeft s cutset) cutset"

definition strings_TrimSuffix :: "string \<Rightarrow> string \<Rightarrow> string" where
  "strings_TrimSuffix s suffix =
     (if length suffix \<le> length s \<and> drop (length s - length suffix) s = suffix
      then take (length s - length suffix) s else s)"

text \<open>\<^verbatim>\<open>strings.Replace(s, old, new, -1)\<close> for a non-empty \<^verbatim>\<open>old\<close> (every call of
  the package passes one): the non-overlapping occurrences are replaced from left
  to right. With an empty \<^verbatim>\<open>old\<close> the model returns \<open>s\<close>; no call site reaches it.\<close>

fun strings_Replace :: "string \<Rightarrow> string \<Rightarrow> string \<Rightarrow> string" where
  "strings_Replace [] old new = []"
| "strings_Replace (c # cs) old new =
     (if old \<noteq> [] \<and> take (length old) (c # cs) = old
      then new @ strings_Replace (drop (length old) (c # cs)) old new
      else c # strings_Replace cs old new)"

text \<open>\<^verbatim>\<open>strconv.ParseInt(s, 10, 64)\<close>. \<^verbatim>\<open>ParseUint\<close> reads the digits from left to
  right; a byte that is not a decimal digit is a syntax error, a value beyond
  64 bits a range error. Go detects the overflow by the wrap-around of
  \<^verbatim>\<open>uint64\<close>; over the unbounded \<^typ>\<open>int\<close>, which holds the non-negative value
  here, the same test is the comparison with \<open>maxVal\<close>.\<close>

datatype NumError = ErrSyntax | ErrRange

definition maxVal :: int where
  "maxVal = 2 ^ 64 - 1"

fun ParseUint_loop :: "string \<Rightarrow> int \<Rightarrow> NumError + int" where
  "ParseUint_loop [] n = Inr n"
| "ParseUint_loop (c # cs) n =
     (if \<not> (48 \<le> (of_char c :: int) \<and> (of_char c :: int) \<le> 57) then Inl ErrSyntax
      else if n \<ge> maxVal div 10 + 1 then Inl ErrRange
      else let n1 = n * 10 + (of_char c - 48)
           in if n1 > maxVal then Inl ErrRange else ParseUint_loop cs n1)"

definition strconv_ParseUint :: "string \<Rightarrow> NumError + int" where
  "strconv_ParseUint s = (if s = [] then Inl ErrSyntax else ParseUint_loop s 0)"

definition strconv_ParseInt :: "string \<Rightarrow> NumError + int" where
  "strconv_ParseInt s =
     (if s = [] then Inl ErrSyntax
      else let neg = (hd s = CHR ''-'');
               s1 = (if hd s = CHR ''+'' \<or> hd s = CHR ''-'' then tl s else s)
           in case strconv_ParseUint s1 of
                Inl ErrSyntax \<Rightarrow> Inl ErrSyntax
              | r \<Rightarrow>
                 (let un = (case r of Inr u \<Rightarrow> u | Inl _ \<Rightarrow> maxVal);
                      cutoff = (2::int) ^ 63
                  in if \<not> neg \<and> un \<ge> cutoff then Inl ErrRange
                     else if neg \<and> un > cutoff then Inl ErrRange
                     else Inr (if neg then - un else un)))"

text \<open>\<^verbatim>\<open>path/filepath\<close> with the separator \<^verbatim>\<open>/\<close> (the Unix build): \<^verbatim>\<open>Split\<close>
  cuts after the last separator, \<^verbatim>\<open>Ext\<close> scans back from the end for a dot in
  the last element, \<^verbatim>\<open>Base\<close> drops trailing separators and returns the last
  element.\<close>

definition filepath_Split :: "string \<Rightarrow> string \<times> string" where
  "filepath_Split path =
     (let file = rev (takeWhile (\<lambda>c. c \<noteq> CHR ''/'') (rev path))
      in (take (length path - length file) path, file))"

fun Ext_scan :: "string \<Rightarrow> string \<Rightarrow> string" where
  "Ext_scan [] acc = []"
| "Ext_scan (c # cs) acc =
     (if c = CHR ''/'' then []
      else if c = CHR ''.'' then c # acc
      else Ext_scan cs (c # acc))"

definition filepath_Ext :: "string \<Rightarrow> string" where
  "filepath_Ext path = Ext_scan (rev path) []"

definition filepath_Base :: "string \<Rightarrow> string" where
  "filepath_Base path =
     (if path = [] then ''.''
      else let p = rev (dropWhile (\<lambda>c. c = CHR ''/'') (rev path));
               p = rev (takeWhile (\<lambda>c. c \<noteq> CHR ''/'') (rev p))
           in if p = [] then ''/'' else p)"

subsection \<open>Data model\<close>

text \<open>\<^verbatim>\<open>ParseResult\<close>. The types \<^verbatim>\<open>time.Time\<close> and \<^verbatim>\<open>quality.Quality\<close> are declared
  outside the package and stay abstract (\<open>'t\<close> and \<open>'q\<close>).\<close>

record ('t, 'q) ParseResult =
  OriginalName :: string
  SeriesName :: string
  SeasonNumber :: int
  EpisodeNumbers :: "int list"
  ExtraInfo :: string
  ReleaseGroup :: string
  AirDate :: 't
  AbsoluteEpisodeNumbers :: "int list"
  Score :: int
  Quality :: 'q
  Version :: string
  RegexUsed :: string

text \<open>A compiled \<^verbatim>\<open>pcre.Regexp\<close> is its matching behaviour: \<open>None\<close> when
  \<^verbatim>\<open>Matches()\<close> is false, otherwise the function \<^verbatim>\<open>NamedString\<close> of the matcher,
  which gives \<open>None\<close> where it returns an error (no group of that name) and the
  captured text otherwise (the empty string for a group that took no part).\<close>

type_synonym pcre_Regexp = "string \<Rightarrow> (string \<Rightarrow> string option) option"

text \<open>\<^verbatim>\<open>NameRegex\<close>; its \<^verbatim>\<open>TestStrings\<close> are read by no function of the parser and
  are left out.\<close>

record NameRegex =
  Name :: string
  Regex :: pcre_Regexp

record NameParser =
  Regexes :: "NameRegex list"

datatype error = Errorf string

text \<open>What the package takes from elsewhere: \<^verbatim>\<open>brimtime.TranslateYMD\<close>,
  \<^verbatim>\<open>time.Date\<close> (at midnight UTC) and the zero \<^verbatim>\<open>time.Time\<close>,
  \<^verbatim>\<open>quality.QualityFromName\<close>, the zero value of \<^verbatim>\<open>quality.Quality\<close> and whether
  \<^verbatim>\<open>isEmptyValue\<close> holds of a value of that type, and \<^verbatim>\<open>sort.Sort\<close>, which is
  given the \<^verbatim>\<open>Less\<close> of the interface it sorts by.\<close>

record ('t, 'q) extern =
  TranslateYMD :: "string \<Rightarrow> string list \<Rightarrow> int \<times> int \<times> int"
  time_Date :: "int \<Rightarrow> int \<Rightarrow> int \<Rightarrow> 't"
  time_zero :: 't
  QualityFromName :: "string \<Rightarrow> bool \<Rightarrow> 'q"
  quality_zero :: 'q
  quality_isEmpty :: "'q \<Rightarrow> bool"
  sort_Sort :: "(('t, 'q) ParseResult \<Rightarrow> ('t, 'q) ParseResult \<Rightarrow> bool)
                  \<Rightarrow> ('t, 'q) ParseResult list \<Rightarrow> ('t, 'q) ParseResult list"

text \<open>The zero value \<^verbatim>\<open>ParseResult{}\<close>.\<close>

definition ParseResult_zero :: "('t, 'q) extern \<Rightarrow> ('t, 'q) ParseResult" where
  "ParseResult_zero ext =
     \<lparr> OriginalName = [], SeriesName = [], SeasonNumber = 0, EpisodeNumbers = [],
       ExtraInfo = [], ReleaseGroup = [], AirDate = time_zero ext,
       AbsoluteEpisodeNumbers = [], Score = 0, Quality = quality_zero ext,
       Version = [], RegexUsed = [] \<rparr>"

text \<open>\<^verbatim>\<open>byScore.Less\<close> and \<^verbatim>\<open>sort.Reverse\<close>, on the elements compared.\<close>

definition byScore_Less :: "('t, 'q) ParseResult \<Rightarrow> ('t, 'q) ParseResult \<Rightarrow> bool" where
  "byScore_Less a b \<longleftrightarrow> Score a < Score b"

definition sort_Reverse :: "('a \<Rightarrow> 'a \<Rightarrow> bool) \<Rightarrow> 'a \<Rightarrow> 'a \<Rightarrow> bool" where
  "sort_Reverse lt a b \<longleftrightarrow> lt b a"

text \<open>The contract of \<^verbatim>\<open>sort.Sort\<close> for the order the parser sorts by: the result
  is a rearrangement of the input in which no element is \<^verbatim>\<open>Less\<close> than one before
  it. The sort is not stable, so nothing is fixed about the order of equal
  scores.\<close>

definition sort_Sort_ok :: "('t, 'q) extern \<Rightarrow> bool" where
  "sort_Sort_ok ext \<longleftrightarrow>
     (\<forall>xs. mset (sort_Sort ext (sort_Reverse byScore_Less) xs) = mset xs \<and>
           sorted_wrt (\<lambda>a b. \<not> sort_Reverse byScore_Less b a)
             (sort_Sort ext (sort_Reverse byScore_Less) xs))"

subsection \<open>The single-string parser\<close>

definition knownMatches :: "string list" where
  "knownMatches =
     [''series_name'', ''season_num'', ''ep_num'', ''ep_ab_num'', ''extra_ep_num'',
      ''extra_ab_ep_num'', ''extra_info'', ''release_group'', ''air_date'', ''series_num'']"

text \<open>\<^verbatim>\<open>regexNamedMatch\<close>: the named matches in a map, \<open>None\<close> for the second result
  \<^verbatim>\<open>false\<close>. Only the names of \<open>knownMatches\<close> are asked for, and only a capture
  that is not empty is stored.\<close>

definition regexNamedMatch :: "pcre_Regexp \<Rightarrow> string \<Rightarrow> (string \<rightharpoonup> string) option" where
  "regexNamedMatch re str =
     (case re str of
        None \<Rightarrow> None
      | Some NamedString \<Rightarrow>
          Some (fold (\<lambda>name result.
                        case NamedString name of
                          Some extract \<Rightarrow> if extract \<noteq> [] then result(name \<mapsto> extract) else result
                        | None \<Rightarrow> result)
                     knownMatches Map.empty))"

text \<open>\<^verbatim>\<open>CleanSeriesName\<close>. The two regular expressions are character classes, so
  \<^verbatim>\<open>ReplaceAllString\<close> is a map and a filter over the bytes.\<close>

definition CleanSeriesName :: "string \<Rightarrow> string" where
  "CleanSeriesName name0 =
     (let name = strings_Trim name0 '' '';
          name = strings_Trim name ''.'';
          name = map (\<lambda>c. if c \<in> {CHR 0x5C, CHR ''/'', CHR ''*''} then CHR ''-'' else c) name;
          name = filter (\<lambda>c. c \<notin> {CHR '':'', CHR 0x22, CHR ''<'', CHR ''>'', CHR ''|'', CHR ''?''}) name;
          name = strings_Replace name ''--'' ''-''
      in name)"

text \<open>The body of the loop over the catalog is one block per capture group. A
  block returns \<open>None\<close> where the source says \<^verbatim>\<open>continue\<close>: the rule gives no
  candidate for this input.\<close>

definition on_series_name ::
  "(string \<rightharpoonup> string) \<Rightarrow> ('t, 'q) ParseResult \<Rightarrow> ('t, 'q) ParseResult" where
  "on_series_name matches pr =
     (case matches ''series_name'' of
        Some m \<Rightarrow> pr\<lparr>SeriesName := CleanSeriesName m, Score := Score pr + 1\<rparr>
      | None \<Rightarrow> pr)"

definition on_series_num ::
  "(string \<rightharpoonup> string) \<Rightarrow> ('t, 'q) ParseResult \<Rightarrow> ('t, 'q) ParseResult" where
  "on_series_num matches pr =
     (case matches ''series_num'' of
        Some _ \<Rightarrow> pr\<lparr>Score := Score pr + 1\<rparr>
      | None \<Rightarrow> pr)"

definition on_season_num ::
  "(string \<rightharpoonup> string) \<Rightarrow> ('t, 'q) ParseResult \<Rightarrow> ('t, 'q) ParseResult option" where
  "on_season_num matches pr =
     (case matches ''season_num'' of
        Some m0 \<Rightarrow>
          (let m = strings_TrimLeft m0 ''0''
           in case strconv_ParseInt m of
                Inl err \<Rightarrow> None
              | Inr sn \<Rightarrow> Some (pr\<lparr>SeasonNumber := sn, Score := Score pr + 1\<rparr>))
      | None \<Rightarrow> Some pr)"

text \<open>In the block of \<^verbatim>\<open>ep_num\<close> the second \<^verbatim>\<open>TrimLeft\<close> is applied to \<open>m\<close> again
  and its result is not read: \<^verbatim>\<open>extraEp\<close> is converted as captured. When that
  conversion fails the source only logs, and assigns nothing.\<close>

definition on_ep_num ::
  "(string \<rightharpoonup> string) \<Rightarrow> ('t, 'q) ParseResult \<Rightarrow> ('t, 'q) ParseResult option" where
  "on_ep_num matches pr =
     (case matches ''ep_num'' of
        Some m0 \<Rightarrow>
          (let m = strings_TrimLeft m0 ''0''
           in case strconv_ParseInt m of
                Inl err \<Rightarrow> None
              | Inr en \<Rightarrow>
                  (case matches ''extra_ep_num'' of
                     Some extraEp \<Rightarrow>
                       (let m = strings_TrimLeft m ''0''
                        in case strconv_ParseInt extraEp of
                             Inl err \<Rightarrow> Some pr
                           | Inr extraEpCvt \<Rightarrow> Some (pr\<lparr>EpisodeNumbers := [en, extraEpCvt]\<rparr>))
                   | None \<Rightarrow> Some (pr\<lparr>EpisodeNumbers := [en]\<rparr>)))
      | None \<Rightarrow> Some pr)"

definition on_ep_ab_num ::
  "(string \<rightharpoonup> string) \<Rightarrow> ('t, 'q) ParseResult \<Rightarrow> ('t, 'q) ParseResult option" where
  "on_ep_ab_num matches pr =
     (case matches ''ep_ab_num'' of
        Some m \<Rightarrow>
          (case strconv_ParseInt m of
             Inl err \<Rightarrow> None
           | Inr en \<Rightarrow> Some (pr\<lparr>AbsoluteEpisodeNumbers := [en]\<rparr>))
      | None \<Rightarrow> Some pr)"

definition on_air_date ::
  "('t, 'q) extern \<Rightarrow> (string \<rightharpoonup> string) \<Rightarrow> ('t, 'q) ParseResult
     \<Rightarrow> ('t, 'q) ParseResult option" where
  "on_air_date ext matches pr =
     (case matches ''air_date'' of
        Some m \<Rightarrow>
          (case TranslateYMD ext m ['''', ''D'', ''MD'', ''YMD''] of
             (year, month, day) \<Rightarrow>
               if year \<noteq> 0 \<and> month \<noteq> 0
               then Some (pr\<lparr>AirDate := time_Date ext year month day, Score := Score pr + 1\<rparr>)
               else None)
      | None \<Rightarrow> Some pr)"

definition on_release_group ::
  "(string \<rightharpoonup> string) \<Rightarrow> ('t, 'q) ParseResult \<Rightarrow> ('t, 'q) ParseResult" where
  "on_release_group matches pr =
     (case matches ''release_group'' of
        Some m \<Rightarrow> pr\<lparr>ReleaseGroup := m, Score := Score pr + 1\<rparr>
      | None \<Rightarrow> pr)"

definition on_version ::
  "(string \<rightharpoonup> string) \<Rightarrow> ('t, 'q) ParseResult \<Rightarrow> ('t, 'q) ParseResult" where
  "on_version matches pr =
     (case matches ''version'' of
        Some m \<Rightarrow> pr\<lparr>Version := m\<rparr>
      | None \<Rightarrow> pr)"

text \<open>One iteration for the rule \<open>r\<close> at index \<open>i\<close>: the candidate it appends to
  \<^verbatim>\<open>matchResults\<close>, if any. The block of \<^verbatim>\<open>extra_info\<close> is empty in the source.\<close>

definition parseString_body ::
  "('t, 'q) extern \<Rightarrow> nat \<Rightarrow> NameRegex \<Rightarrow> string \<Rightarrow> ('t, 'q) ParseResult option" where
  "parseString_body ext i r name =
     (case regexNamedMatch (Regex r) name of
        None \<Rightarrow> None
      | Some matches \<Rightarrow>
          do {
            let pr = (ParseResult_zero ext)
                       \<lparr>OriginalName := name, RegexUsed := Name r, Score := 0 - int i\<rparr>;
            let pr = on_series_name matches pr;
            let pr = on_series_num matches pr;
            pr \<leftarrow> on_season_num matches pr;
            pr \<leftarrow> on_ep_num matches pr;
            pr \<leftarrow> on_ep_ab_num matches pr;
            pr \<leftarrow> on_air_date ext matches pr;
            let pr = on_release_group matches pr;
            let pr = on_version matches pr;
            Some pr
          })"

fun parseString_loop ::
  "('t, 'q) extern \<Rightarrow> string \<Rightarrow> nat \<Rightarrow> NameRegex list \<Rightarrow> ('t, 'q) ParseResult list
     \<Rightarrow> ('t, 'q) ParseResult list" where
  "parseString_loop ext name i [] matchResults = matchResults"
| "parseString_loop ext name i (r # rs) matchResults =
     parseString_loop ext name (Suc i) rs
       (case parseString_body ext i r name of
          Some pr \<Rightarrow> matchResults @ [pr]
        | None \<Rightarrow> matchResults)"

text \<open>\<^verbatim>\<open>parseString\<close> returns its result together with the error, as the Go
  function does; both pointers it can return are non-nil.\<close>

definition parseString ::
  "('t, 'q) extern \<Rightarrow> NameParser \<Rightarrow> string \<Rightarrow> ('t, 'q) ParseResult \<times> error option" where
  "parseString ext np name =
     (let matchResults = parseString_loop ext name 0 (Regexes np) [];
          matchResults = sort_Sort ext (sort_Reverse byScore_Less) matchResults
      in case matchResults of
           best # _ \<Rightarrow> (best, None)
         | [] \<Rightarrow> (ParseResult_zero ext, Some (Errorf (''Couldn't parse string '' @ name))))"

definition Parse :: "('t, 'q) extern \<Rightarrow> NameParser \<Rightarrow> string \<Rightarrow> ('t, 'q) ParseResult" where
  "Parse ext np name =
     (let res = fst (parseString ext np name);
          q = QualityFromName ext name False
      in res\<lparr>Quality := q\<rparr>)"

subsection \<open>Path reconciliation\<close>

text \<open>A run-time panic of Go is a value of the model: a slice expression out of
  range, or \<^verbatim>\<open>reflect.Value.Set\<close> with a value of another type.\<close>

datatype go_panic = SliceBounds | ReflectSet

definition stripExtension :: "string \<Rightarrow> go_panic + string" where
  "stripExtension fname =
     (let extension = filepath_Ext fname
      in if length extension \<le> length fname
         then Inr (take (length fname - length extension) fname)
         else Inl SliceBounds)"

text \<open>The part of \<^verbatim>\<open>reflect\<close> that \<^verbatim>\<open>combineResults\<close> uses. A \<open>reflect_Value\<close> is a
  field's value tagged with its kind: \<^verbatim>\<open>String\<close>, \<^verbatim>\<open>Int\<close> or \<^verbatim>\<open>Int64\<close>, \<^verbatim>\<open>Slice\<close>,
  \<^verbatim>\<open>Struct\<close> (the \<^verbatim>\<open>time.Time\<close> of \<^verbatim>\<open>AirDate\<close>), and the kind of \<^verbatim>\<open>quality.Quality\<close>,
  which this package does not fix.\<close>

datatype ('t, 'q) reflect_Value =
  VString string | VInt int | VSlice "int list" | VStruct 't | VQuality 'q

definition FieldByName ::
  "('t, 'q) ParseResult \<Rightarrow> string \<Rightarrow> ('t, 'q) reflect_Value option" where
  "FieldByName r field =
     (if field = ''OriginalName'' then Some (VString (OriginalName r))
      else if field = ''SeriesName'' then Some (VString (SeriesName r))
      else if field = ''SeasonNumber'' then Some (VInt (SeasonNumber r))
      else if field = ''EpisodeNumbers'' then Some (VSlice (EpisodeNumbers r))
      else if field = ''ExtraInfo'' then Some (VString (ExtraInfo r))
      else if field = ''ReleaseGroup'' then Some (VString (ReleaseGroup r))
      else if field = ''AirDate'' then Some (VStruct (AirDate r))
      else if field = ''AbsoluteEpisodeNumbers'' then Some (VSlice (AbsoluteEpisodeNumbers r))
      else if field = ''Score'' then Some (VInt (Score r))
      else if field = ''Quality'' then Some (VQuality (Quality r))
      else if field = ''Version'' then Some (VString (Version r))
      else if field = ''RegexUsed'' then Some (VString (RegexUsed r))
      else None)"

text \<open>\<^verbatim>\<open>r.Set(v)\<close> on the field \<open>field\<close> of \<open>r\<close>; it panics when the types differ.\<close>

definition Set_field ::
  "('t, 'q) ParseResult \<Rightarrow> string \<Rightarrow> ('t, 'q) reflect_Value
     \<Rightarrow> go_panic + ('t, 'q) ParseResult" where
  "Set_field r field v =
     (case v of
        VString s \<Rightarrow>
          if field = ''OriginalName'' then Inr (r\<lparr>OriginalName := s\<rparr>)
          else if field = ''SeriesName'' then Inr (r\<lparr>SeriesName := s\<rparr>)
          else if field = ''ExtraInfo'' then Inr (r\<lparr>ExtraInfo := s\<rparr>)
          else if field = ''ReleaseGroup'' then Inr (r\<lparr>ReleaseGroup := s\<rparr>)
          else if field = ''Version'' then Inr (r\<lparr>Version := s\<rparr>)
          else if field = ''RegexUsed'' then Inr (r\<lparr>RegexUsed := s\<rparr>)
          else Inl ReflectSet
      | VInt n \<Rightarrow>
          if field = ''SeasonNumber'' then Inr (r\<lparr>SeasonNumber := n\<rparr>)
          else if field = ''Score'' then Inr (r\<lparr>Score := n\<rparr>)
          else Inl ReflectSet
      | VSlice ns \<Rightarrow>
          if field = ''EpisodeNumbers'' then Inr (r\<lparr>EpisodeNumbers := ns\<rparr>)
          else if field = ''AbsoluteEpisodeNumbers'' then Inr (r\<lparr>AbsoluteEpisodeNumbers := ns\<rparr>)
          else Inl ReflectSet
      | VStruct t \<Rightarrow>
          if field = ''AirDate'' then Inr (r\<lparr>AirDate := t\<rparr>) else Inl ReflectSet
      | VQuality q \<Rightarrow>
          if field = ''Quality'' then Inr (r\<lparr>Quality := q\<rparr>) else Inl ReflectSet)"

text \<open>\<^verbatim>\<open>isEmptyValue\<close>: the kinds are tested in the order of the \<^verbatim>\<open>switch\<close>; a
  \<^verbatim>\<open>Struct\<close> meets no case and falls through to \<^verbatim>\<open>return false\<close>.\<close>

definition isEmptyValue :: "('t, 'q) extern \<Rightarrow> ('t, 'q) reflect_Value \<Rightarrow> bool" where
  "isEmptyValue ext v =
     (case v of
        VSlice ns \<Rightarrow> length ns = 0
      | VString s \<Rightarrow> length s = 0
      | VInt n \<Rightarrow> n = 0
      | VQuality q \<Rightarrow> quality_isEmpty ext q
      | VStruct t \<Rightarrow> False)"

text \<open>\<^verbatim>\<open>combineResults\<close> returns the updated \<^verbatim>\<open>finalRes\<close> and its error result. Every
  field of \<^verbatim>\<open>ParseResult\<close> is exported and \<^verbatim>\<open>finalRes\<close> is reached through a pointer,
  so \<^verbatim>\<open>CanSet\<close> is true for a valid field.\<close>

definition combineResults ::
  "('t, 'q) extern \<Rightarrow> ('t, 'q) ParseResult \<Rightarrow> ('t, 'q) ParseResult \<Rightarrow> ('t, 'q) ParseResult
     \<Rightarrow> string \<Rightarrow> go_panic + (('t, 'q) ParseResult \<times> error option)" where
  "combineResults ext finalRes fileRes dirRes field =
     (case (FieldByName finalRes field, FieldByName fileRes field, FieldByName dirRes field) of
        (Some r, Some fVal, Some dVal) \<Rightarrow>
          (case Set_field finalRes field (if \<not> isEmptyValue ext fVal then fVal else dVal) of
             Inl p \<Rightarrow> Inl p
           | Inr finalRes' \<Rightarrow> Inr (finalRes', None))
      | _ \<Rightarrow> Inr (finalRes, Some (Errorf (''Invalid field name given: '' @ field))))"

text \<open>The eight calls of \<^verbatim>\<open>combineResults\<close> in \<^verbatim>\<open>ParseFile\<close>, in their order, each
  with its second and third argument and the field; the error result is dropped
  by the caller.\<close>

fun combine_calls ::
  "('t, 'q) extern \<Rightarrow> ('t, 'q) ParseResult
     \<Rightarrow> (('t, 'q) ParseResult \<times> ('t, 'q) ParseResult \<times> string) list
     \<Rightarrow> go_panic + ('t, 'q) ParseResult" where
  "combine_calls ext finalRes [] = Inr finalRes"
| "combine_calls ext finalRes ((a, b, field) # calls) =
     (case combineResults ext finalRes a b field of
        Inl p \<Rightarrow> Inl p
      | Inr (finalRes', _) \<Rightarrow> combine_calls ext finalRes' calls)"

definition ParseFile ::
  "('t, 'q) extern \<Rightarrow> NameParser \<Rightarrow> string \<Rightarrow> go_panic + ('t, 'q) ParseResult" where
  "ParseFile ext np name =
     (case filepath_Split name of
        (dirName, fileName0) \<Rightarrow>
          (case stripExtension fileName0 of
             Inl p \<Rightarrow> Inl p
           | Inr fileName \<Rightarrow>
               (let dirNameBase = filepath_Base dirName;
                    fileNameResult = fst (parseString ext np fileName);
                    dirNameResult = fst (parseString ext np dirNameBase);
                    finalRes = fst (parseString ext np name);
                    q = QualityFromName ext name False
                in case combine_calls ext finalRes
                          [(fileNameResult, dirNameResult, ''AirDate''),
                           (fileNameResult, dirNameResult, ''AbsoluteEpisodeNumbers''),
                           (fileNameResult, dirNameResult, ''SeasonNumber''),
                           (fileNameResult, dirNameResult, ''EpisodeNumbers''),
                           (dirNameResult, fileNameResult, ''SeriesName''),
                           (dirNameResult, fileNameResult, ''ExtraInfo''),
                           (dirNameResult, fileNameResult, ''ReleaseGroup''),
                           (dirNameResult, fileNameResult, ''Version'')] of
                     Inl p \<Rightarrow> Inl p
                   | Inr finalRes \<Rightarrow> Inr (finalRes\<lparr>Quality := q\<rparr>))))"

subsection \<open>Scene names\<close>

text \<open>\<^verbatim>\<open>dotreplace.ReplaceAllString(name, ".")\<close> for the pattern \<^verbatim>\<open>\.\.*\<close>: every
  maximal run of periods becomes one period.\<close>

function dotreplace_ReplaceAllString :: "string \<Rightarrow> string" where
  "dotreplace_ReplaceAllString [] = []"
| "dotreplace_ReplaceAllString (c # cs) =
     (if c = CHR ''.''
      then c # dotreplace_ReplaceAllString (dropWhile (\<lambda>d. d = CHR ''.'') cs)
      else c # dotreplace_ReplaceAllString cs)"
  by pat_completeness auto
termination
  by (relation "measure length") (auto simp: le_imp_less_Suc length_dropWhile_le)

text \<open>\<^verbatim>\<open>SanitizeSceneName\<close>. The source calls \<^verbatim>\<open>ReplaceAllString\<close> as a statement:
  its result is assigned to nothing, and \<open>name\<close> goes on unchanged to
  \<^verbatim>\<open>TrimSuffix\<close>.\<close>

definition bad_chars :: "string list" where
  "bad_chars = ['','', '':'', ''('', '')'', ''!'', ''?'', [CHR 0x27]]"

definition SanitizeSceneName :: "string \<Rightarrow> string" where
  "SanitizeSceneName name0 =
     (let name = fold (\<lambda>str name. strings_Replace name str '''') bad_chars name0;
          name = strings_Replace name ''- '' ''.'';
          name = strings_Replace name '' '' ''.'';
          name = strings_Replace name ''&'' ''and'';
          name = strings_Replace name ''/'' ''.'';
          discarded = dotreplace_ReplaceAllString name;
          name = strings_TrimSuffix name ''.''
      in name)"

subsection \<open>Notions for stating the properties\<close>

text \<open>The non-empty text that the pattern of rule \<open>r\<close> captures in the named
  group on the input \<open>name\<close>, if the pattern matches and has such a group.\<close>

definition captured :: "NameRegex \<Rightarrow> string \<Rightarrow> string \<Rightarrow> string option" where
  "captured r name grp =
     (case Regex r name of
        None \<Rightarrow> None
      | Some NamedString \<Rightarrow>
          (case NamedString grp of
             Some extract \<Rightarrow> if extract \<noteq> [] then Some extract else None
           | None \<Rightarrow> None))"


text \<open>What a single-string parse contributes to the reconciliation: its result, or
  the zero \<^verbatim>\<open>ParseResult\<close> when it returned an error.\<close>

definition slot :: "('t, 'q) extern \<Rightarrow> NameParser \<Rightarrow> string \<Rightarrow> ('t, 'q) ParseResult" where
  "slot ext np s =
     (case parseString ext np s of
        (res, None) \<Rightarrow> res
      | (res, Some err) \<Rightarrow> ParseResult_zero ext)"

subsection \<open>A concrete setting for the examples\<close>

text \<open>An insertion sort is one admissible \<^verbatim>\<open>sort.Sort\<close>.\<close>

fun insert_by :: "('a \<Rightarrow> 'a \<Rightarrow> bool) \<Rightarrow> 'a \<Rightarrow> 'a list \<Rightarrow> 'a list" where
  "insert_by lt x [] = [x]"
| "insert_by lt x (y # ys) = (if lt x y then x # y # ys else y # insert_by lt x ys)"

definition insertion_sort :: "('a \<Rightarrow> 'a \<Rightarrow> bool) \<Rightarrow> 'a list \<Rightarrow> 'a list" where
  "insertion_sort lt xs = foldr (insert_by lt) xs []"

text \<open>Dates are triples of year, month and day, and the date translation knows one
  date; qualities are numbers, 0 for unknown, and a name ending in \<^verbatim>\<open>.mkv\<close> has
  quality 1.\<close>

definition ext0 :: "(int \<times> int \<times> int, nat) extern" where
  "ext0 = \<lparr> TranslateYMD = (\<lambda>m layouts. if m = ''2015-03-01'' then (2015, 3, 1) else (0, 0, 0)),
            time_Date = (\<lambda>y m d. (y, m, d)),
            time_zero = (1, 1, 1),
            QualityFromName = (\<lambda>name anime. if take 4 (rev name) = ''vkm.'' then 1 else 0),
            quality_zero = 0,
            quality_isEmpty = (\<lambda>q. q = 0),
            sort_Sort = insertion_sort \<rparr>"

text \<open>A rule whose pattern matches exactly the string \<open>s\<close> and has the named
  groups of \<open>caps\<close> with the texts given there.\<close>

definition exact_rule :: "string \<Rightarrow> string \<Rightarrow> (string \<times> string) list \<Rightarrow> NameRegex" where
  "exact_rule nm s caps =
     \<lparr> Name = nm, Regex = (\<lambda>str. if str = s then Some (map_of caps) else None) \<rparr>"

definition rule_all_groups :: NameRegex where
  "rule_all_groups =
     exact_rule ''all_groups'' ''Show.S01E02.2015-03-01-GRP.v2''
       [(''series_name'', ''Show''), (''series_num'', ''1''), (''season_num'', ''01''),
        (''ep_num'', ''02''), (''ep_ab_num'', ''7''), (''air_date'', ''2015-03-01''),
        (''release_group'', ''GRP''), (''version'', ''v2'')]"

definition rule_multi_ep :: NameRegex where
  "rule_multi_ep =
     exact_rule ''multi_ep'' ''Show.E05-Ex6'' [(''ep_num'', ''05''), (''extra_ep_num'', ''x6'')]"



definition np_pair :: NameParser where
  "np_pair =
     \<lparr> Regexes =
         [exact_rule ''first'' ''Show.S01E02-GRP''
            [(''series_name'', ''Show''), (''season_num'', ''01''), (''ep_num'', ''02'')],
          exact_rule ''second'' ''Show.S01E02-GRP''
            [(''series_name'', ''Show.S01''), (''ep_num'', ''02''), (''release_group'', ''GRP'')]] \<rparr>"

definition cand_first :: "(int \<times> int \<times> int, nat) ParseResult" where
  "cand_first =
     \<lparr> OriginalName = ''Show.S01E02-GRP'', SeriesName = ''Show'', SeasonNumber = 1,
       EpisodeNumbers = [2], ExtraInfo = [], ReleaseGroup = [], AirDate = (1, 1, 1),
       AbsoluteEpisodeNumbers = [], Score = 2, Quality = 0, Version = [],
       RegexUsed = ''first'' \<rparr>"

definition cand_second :: "(int \<times> int \<times> int, nat) ParseResult" where
  "cand_second =
     \<lparr> OriginalName = ''Show.S01E02-GRP'', SeriesName = ''Show.S01'', SeasonNumber = 0,
       EpisodeNumbers = [2], ExtraInfo = [], ReleaseGroup = ''GRP'', AirDate = (1, 1, 1),
       AbsoluteEpisodeNumbers = [], Score = 1, Quality = 0, Version = [],
       RegexUsed = ''second'' \<rparr>"

definition np_full :: NameParser where
  "np_full =
     \<lparr> Regexes =
         [exact_rule ''full_path'' ''/tv/misc/ep.mkv''
            [(''series_name'', ''Show''), (''season_num'', ''01''), (''ep_num'', ''02''),
             (''ep_ab_num'', ''7''), (''air_date'', ''2015-03-01''),
             (''release_group'', ''GRP'')]] \<rparr>"

definition np_dated :: NameParser where
  "np_dated =
     \<lparr> Regexes =
         [exact_rule ''dated_dir'' ''2015-03-01'' [(''air_date'', ''2015-03-01'')],
          exact_rule ''episode_file'' ''ep'' [(''ep_num'', ''3'')]] \<rparr>"

definition parsed_full :: "(int \<times> int \<times> int, nat) ParseResult" where
  "parsed_full =
     \<lparr> OriginalName = ''/tv/misc/ep.mkv'', SeriesName = ''Show'', SeasonNumber = 1,
       EpisodeNumbers = [2], ExtraInfo = [], ReleaseGroup = ''GRP'', AirDate = (2015, 3, 1),
       AbsoluteEpisodeNumbers = [7], Score = 4, Quality = 0, Version = [],
       RegexUsed = ''full_path'' \<rparr>"

definition merged_full :: "(int \<times> int \<times> int, nat) ParseResult" where
  "merged_full =
     \<lparr> OriginalName = ''/tv/misc/ep.mkv'', SeriesName = [], SeasonNumber = 0,
       EpisodeNumbers = [], ExtraInfo = [], ReleaseGroup = [], AirDate = (1, 1, 1),
       AbsoluteEpisodeNumbers = [], Score = 4, Quality = 1, Version = [],
       RegexUsed = ''full_path'' \<rparr>"

definition parsed_file :: "(int \<times> int \<times> int, nat) ParseResult" where
  "parsed_file =
     \<lparr> OriginalName = ''ep'', SeriesName = [], SeasonNumber = 0, EpisodeNumbers = [3],
       ExtraInfo = [], ReleaseGroup = [], AirDate = (1, 1, 1), AbsoluteEpisodeNumbers = [],
       Score = - 1, Quality = 0, Version = [], RegexUsed = ''episode_file'' \<rparr>"

definition parsed_dir :: "(int \<times> int \<times> int, nat) ParseResult" where
  "parsed_dir =
     \<lparr> OriginalName = ''2015-03-01'', SeriesName = [], SeasonNumber = 0, EpisodeNumbers = [],
       ExtraInfo = [], ReleaseGroup = [], AirDate = (2015, 3, 1), AbsoluteEpisodeNumbers = [],
       Score = 1, Quality = 0, Version = [], RegexUsed = ''dated_dir'' \<rparr>"

definition merged_dated :: "(int \<times> int \<times> int, nat) ParseResult" where
  "merged_dated =
     \<lparr> OriginalName = [], SeriesName = [], SeasonNumber = 0, EpisodeNumbers = [3],
       ExtraInfo = [], ReleaseGroup = [], AirDate = (1, 1, 1), AbsoluteEpisodeNumbers = [],
       Score = 0, Quality = 1, Version = [], RegexUsed = [] \<rparr>"



definition np_show :: NameParser where
  "np_show =
     \<lparr> Regexes =
         [exact_rule ''show_dir'' ''Show.S01''
            [(''series_name'', ''Show''), (''season_num'', ''01'')]] \<rparr>"

definition parsed_show :: "(int \<times> int \<times> int, nat) ParseResult" where
  "parsed_show =
     \<lparr> OriginalName = ''Show.S01'', SeriesName = ''Show'', SeasonNumber = 1,
       EpisodeNumbers = [], ExtraInfo = [], ReleaseGroup = [], AirDate = (1, 1, 1),
       AbsoluteEpisodeNumbers = [], Score = 2, Quality = 0, Version = [],
       RegexUsed = ''show_dir'' \<rparr>"

definition merged_show :: "(int \<times> int \<times> int, nat) ParseResult" where
  "merged_show =
     \<lparr> OriginalName = [], SeriesName = ''Show'', SeasonNumber = 1,
       EpisodeNumbers = [], ExtraInfo = [], ReleaseGroup = [], AirDate = (1, 1, 1),
       AbsoluteEpisodeNumbers = [], Score = 0, Quality = 1, Version = [],
       RegexUsed = [] \<rparr>"

section \<open>Properties\<close>

subsection \<open>Captures and the map of named matches\<close>

lemma fold_named:
  "fold (\<lambda>name result.
            case g name of
              Some extract \<Rightarrow> if extract \<noteq> [] then result(name \<mapsto> extract) else result
            | None \<Rightarrow> result) ks m0 k =
     (if k \<in> set ks
      then (case g k of Some e \<Rightarrow> if e \<noteq> [] then Some e else m0 k | None \<Rightarrow> m0 k)
      else m0 k)"
  by (induction ks arbitrary: m0) (auto split: option.splits)

lemma regexNamedMatch_lookup:
  assumes "regexNamedMatch (Regex r) name = Some matches"
  shows "matches k = (if k \<in> set knownMatches then captured r name k else None)"
  using assms unfolding regexNamedMatch_def captured_def
  by (auto split: option.splits simp: fold_named)

lemma regexNamedMatch_known:
  assumes "regexNamedMatch (Regex r) name = Some matches"
  shows "matches ''series_name'' = captured r name ''series_name''"
    and "matches ''series_num'' = captured r name ''series_num''"
    and "matches ''season_num'' = captured r name ''season_num''"
    and "matches ''ep_num'' = captured r name ''ep_num''"
    and "matches ''extra_ep_num'' = captured r name ''extra_ep_num''"
    and "matches ''ep_ab_num'' = captured r name ''ep_ab_num''"
    and "matches ''air_date'' = captured r name ''air_date''"
    and "matches ''release_group'' = captured r name ''release_group''"
  by (simp_all add: regexNamedMatch_lookup [OF assms] knownMatches_def)

lemma regexNamedMatch_version:
  "regexNamedMatch (Regex (r :: NameRegex)) name = Some matches \<Longrightarrow> matches ''version'' = None"
  using regexNamedMatch_lookup [of r name matches "''version''"]
  by (simp add: knownMatches_def)

subsection \<open>The candidates of a parse\<close>

lemma set_parseString_loop:
  "set (parseString_loop ext name i rs acc) =
     set acc \<union> {pr. \<exists>k < length rs. parseString_body ext (i + k) (rs ! k) name = Some pr}"
proof (induction rs arbitrary: i acc)
  case Nil
  show ?case by simp
next
  case (Cons r rs)
  have split: "\<And>P. (\<exists>k < Suc (length rs). P k) \<longleftrightarrow> P 0 \<or> (\<exists>k < length rs. P (Suc k))"
    by (metis less_Suc_eq_0_disj)
  show ?case
    by (cases "parseString_body ext i r name") (auto simp: Cons.IH split)
qed

lemma parseString_loop_Nil_iff:
  "parseString_loop ext name 0 rs [] = [] \<longleftrightarrow>
     (\<forall>k < length rs. parseString_body ext k (rs ! k) name = None)"
proof -
  have "parseString_loop ext name 0 rs [] = [] \<longleftrightarrow> set (parseString_loop ext name 0 rs []) = {}"
    by simp
  also have "\<dots> \<longleftrightarrow> (\<forall>k < length rs. parseString_body ext k (rs ! k) name = None)"
    unfolding set_parseString_loop
    by (auto simp: not_Some_eq [symmetric] simp del: not_Some_eq not_None_eq)
  finally show ?thesis .
qed

lemma parseString_body_SomeD:
  assumes "parseString_body ext i r name = Some pr"
  shows "\<exists>matches p1 p2 p3 p4.
           regexNamedMatch (Regex r) name = Some matches \<and>
           on_season_num matches
             (on_series_num matches (on_series_name matches
                ((ParseResult_zero ext)\<lparr>OriginalName := name, RegexUsed := Name r,
                                         Score := 0 - int i\<rparr>))) = Some p1 \<and>
           on_ep_num matches p1 = Some p2 \<and>
           on_ep_ab_num matches p2 = Some p3 \<and>
           on_air_date ext matches p3 = Some p4 \<and>
           pr = on_version matches (on_release_group matches p4)"
  using assms unfolding parseString_body_def
  by (auto split: option.splits simp: bind_eq_Some_conv Let_def)

subsection \<open>The score of a candidate\<close>













lemma body_all_groups:
  "parseString_body ext0 2 rule_all_groups ''Show.S01E02.2015-03-01-GRP.v2'' =
     Some \<lparr> OriginalName = ''Show.S01E02.2015-03-01-GRP.v2'', SeriesName = ''Show'',
            SeasonNumber = 1, EpisodeNumbers = [2], ExtraInfo = [], ReleaseGroup = ''GRP'',
            AirDate = (2015, 3, 1), AbsoluteEpisodeNumbers = [7], Score = 3, Quality = 0,
            Version = [], RegexUsed = ''all_groups'' \<rparr>"
  by code_simp



subsection \<open>Scene names\<close>

text \<open>Claim C3 says that the output of \<^verbatim>\<open>SanitizeSceneName\<close> never has two periods in
  a row and never ends with a period. The collapsed string is computed and dropped,
  so two spaces give two periods, and of two trailing periods one is left.\<close>

theorem SanitizeSceneName_periods_kept:
  "SanitizeSceneName ''a  b'' = ''a..b'' \<and> SanitizeSceneName ''a..'' = ''a.''"
  by code_simp


subsection \<open>Fields that later blocks leave alone\<close>

lemma on_ep_num_keeps:
  "on_ep_num m p = Some p' \<Longrightarrow> SeasonNumber p' = SeasonNumber p \<and> Version p' = Version p"
  by (auto simp: on_ep_num_def Let_def split: option.splits sum.splits)

lemma on_ep_ab_num_keeps:
  "on_ep_ab_num m p = Some p' \<Longrightarrow>
     SeasonNumber p' = SeasonNumber p \<and> Version p' = Version p \<and>
     EpisodeNumbers p' = EpisodeNumbers p"
  by (auto simp: on_ep_ab_num_def split: option.splits sum.splits)

lemma on_air_date_keeps:
  "on_air_date ext m p = Some p' \<Longrightarrow>
     SeasonNumber p' = SeasonNumber p \<and> Version p' = Version p \<and>
     EpisodeNumbers p' = EpisodeNumbers p"
  by (auto simp: on_air_date_def split: option.splits prod.splits if_splits)

lemma on_release_group_keeps:
  "SeasonNumber (on_release_group m p) = SeasonNumber p \<and>
   Version (on_release_group m p) = Version p \<and>
   EpisodeNumbers (on_release_group m p) = EpisodeNumbers p"
  by (simp add: on_release_group_def split: option.splits)

lemma on_version_keeps:
  "SeasonNumber (on_version m p) = SeasonNumber p \<and>
   EpisodeNumbers (on_version m p) = EpisodeNumbers p"
  by (simp add: on_version_def split: option.splits)

lemma on_season_num_keeps:
  "on_season_num m p = Some p' \<Longrightarrow> Version p' = Version p"
  by (auto simp: on_season_num_def Let_def split: option.splits sum.splits)

subsection \<open>The version tag\<close>

lemma Version_before_season:
  "Version (on_series_num m (on_series_name m
      ((ParseResult_zero ext)\<lparr>OriginalName := name, RegexUsed := nm, Score := sc\<rparr>))) = []"
  by (simp add: on_series_num_def on_series_name_def ParseResult_zero_def split: option.splits)

lemma Version_parseString_body:
  assumes "parseString_body ext i r name = Some pr"
  shows "Version pr = []"
proof -
  from parseString_body_SomeD [OF assms]
  obtain matches p1 p2 p3 p4 where
    m: "regexNamedMatch (Regex r) name = Some matches"
    and s1: "on_season_num matches
           (on_series_num matches (on_series_name matches
              ((ParseResult_zero ext)\<lparr>OriginalName := name, RegexUsed := Name r,
                                       Score := 0 - int i\<rparr>))) = Some p1"
    and s2: "on_ep_num matches p1 = Some p2"
    and s3: "on_ep_ab_num matches p2 = Some p3"
    and s4: "on_air_date ext matches p3 = Some p4"
    and s5: "pr = on_version matches (on_release_group matches p4)"
    by auto
  have "on_version matches (on_release_group matches p4) = on_release_group matches p4"
    by (simp add: on_version_def regexNamedMatch_version [OF m])
  then show ?thesis
    using on_season_num_keeps [OF s1] on_ep_num_keeps [OF s2] on_ep_ab_num_keeps [OF s3]
          on_air_date_keeps [OF s4] on_release_group_keeps [of matches p4]
    by (simp add: s5 Version_before_season)
qed

text \<open>Claim C4 says that a rule whose pattern captures a non-empty group
  \<^verbatim>\<open>version\<close> gives a candidate whose version tag is the captured text. The block
  that assigns \<^verbatim>\<open>pr.Version\<close> reads the map of named matches, and \<^verbatim>\<open>version\<close> is
  missing from \<open>knownMatches\<close>, so the map never holds it: the version tag of every
  candidate is empty, whatever was captured.\<close>

theorem version_never_set:
  assumes "parseString_body ext i r name = Some pr"
      and "captured r name ''version'' = Some v"
  shows "Version pr = [] \<and> Version pr \<noteq> v"
proof -
  from assms(2) have "v \<noteq> []"
    by (auto simp: captured_def split: option.splits if_splits)
  with Version_parseString_body [OF assms(1)] show ?thesis by simp
qed

theorem version_never_set_witness:
  "parseString_body ext0 2 rule_all_groups ''Show.S01E02.2015-03-01-GRP.v2'' =
     Some \<lparr> OriginalName = ''Show.S01E02.2015-03-01-GRP.v2'', SeriesName = ''Show'',
            SeasonNumber = 1, EpisodeNumbers = [2], ExtraInfo = [], ReleaseGroup = ''GRP'',
            AirDate = (2015, 3, 1), AbsoluteEpisodeNumbers = [7], Score = 3, Quality = 0,
            Version = [], RegexUsed = ''all_groups'' \<rparr> \<and>
   captured rule_all_groups ''Show.S01E02.2015-03-01-GRP.v2'' ''version'' = Some ''v2'' \<and>
   Version \<lparr> OriginalName = ''Show.S01E02.2015-03-01-GRP.v2'', SeriesName = ''Show'',
            SeasonNumber = 1, EpisodeNumbers = [2], ExtraInfo = [], ReleaseGroup = ''GRP'',
            AirDate = (2015, 3, 1) :: int \<times> int \<times> int, AbsoluteEpisodeNumbers = [7], Score = 3,
            Quality = 0 :: nat, Version = [], RegexUsed = ''all_groups'' \<rparr> \<noteq> ''v2''"
proof -
  have c: "captured rule_all_groups ''Show.S01E02.2015-03-01-GRP.v2'' ''version'' = Some ''v2''"
    by code_simp
  from version_never_set [OF body_all_groups c] show ?thesis
    using body_all_groups c by simp
qed

subsection \<open>Episode numbers\<close>

lemma EpisodeNumbers_on_ep_num:
  assumes "on_ep_num m p = Some p'"
      and "m ''ep_num'' = Some m0"
  shows "\<exists>en. strconv_ParseInt (strings_TrimLeft m0 ''0'') = Inr en \<and>
           (case m ''extra_ep_num'' of
              None \<Rightarrow> EpisodeNumbers p' = [en]
            | Some x \<Rightarrow>
                (case strconv_ParseInt x of
                   Inl err \<Rightarrow> EpisodeNumbers p' = EpisodeNumbers p
                 | Inr e2 \<Rightarrow> EpisodeNumbers p' = [en, e2]))"
  using assms
  by (auto simp: on_ep_num_def Let_def split: option.splits sum.splits)

lemma EpisodeNumbers_before_ep:
  "on_season_num m (on_series_num m (on_series_name m
      ((ParseResult_zero ext)\<lparr>OriginalName := name, RegexUsed := nm, Score := sc\<rparr>))) = Some p
   \<Longrightarrow> EpisodeNumbers p = []"
  by (auto simp: on_season_num_def on_series_num_def on_series_name_def ParseResult_zero_def
                 Let_def split: option.splits sum.splits)

lemma EpisodeNumbers_parseString_body:
  assumes "parseString_body ext i r name = Some pr"
      and "captured r name ''ep_num'' = Some m0"
  shows "\<exists>en. strconv_ParseInt (strings_TrimLeft m0 ''0'') = Inr en \<and>
           (case captured r name ''extra_ep_num'' of
              None \<Rightarrow> EpisodeNumbers pr = [en]
            | Some x \<Rightarrow>
                (case strconv_ParseInt x of
                   Inl err \<Rightarrow> EpisodeNumbers pr = []
                 | Inr e2 \<Rightarrow> EpisodeNumbers pr = [en, e2]))"
proof -
  from parseString_body_SomeD [OF assms(1)]
  obtain matches p1 p2 p3 p4 where
    m: "regexNamedMatch (Regex r) name = Some matches"
    and s1: "on_season_num matches
           (on_series_num matches (on_series_name matches
              ((ParseResult_zero ext)\<lparr>OriginalName := name, RegexUsed := Name r,
                                       Score := 0 - int i\<rparr>))) = Some p1"
    and s2: "on_ep_num matches p1 = Some p2"
    and s3: "on_ep_ab_num matches p2 = Some p3"
    and s4: "on_air_date ext matches p3 = Some p4"
    and s5: "pr = on_version matches (on_release_group matches p4)"
    by auto
  have e: "EpisodeNumbers pr = EpisodeNumbers p2"
    using on_ep_ab_num_keeps [OF s3] on_air_date_keeps [OF s4]
          on_release_group_keeps [of matches p4]
          on_version_keeps [of matches "on_release_group matches p4"]
    by (simp add: s5)
  have ep: "matches ''ep_num'' = Some m0"
    using assms(2) by (simp add: regexNamedMatch_known [OF m])
  from EpisodeNumbers_on_ep_num [OF s2 ep] obtain en where
    en: "strconv_ParseInt (strings_TrimLeft m0 ''0'') = Inr en"
    and c: "(case matches ''extra_ep_num'' of
               None \<Rightarrow> EpisodeNumbers p2 = [en]
             | Some x \<Rightarrow>
                 (case strconv_ParseInt x of
                    Inl err \<Rightarrow> EpisodeNumbers p2 = EpisodeNumbers p1
                  | Inr e2 \<Rightarrow> EpisodeNumbers p2 = [en, e2]))"
    by blast
  have x: "matches ''extra_ep_num'' = captured r name ''extra_ep_num''"
    by (rule regexNamedMatch_known(5) [OF m])
  show ?thesis
  proof (cases "captured r name ''extra_ep_num''")
    case None
    with c x en show ?thesis by (simp add: e)
  next
    case (Some y)
    with c x en show ?thesis
      by (cases "strconv_ParseInt y") (simp_all add: e EpisodeNumbers_before_ep [OF s1])
  qed
qed

text \<open>Claim C2 says that a primary episode number that converts, with a secondary
  one that does not, gives the episode sequence \<open>[primary]\<close>. The branch for the
  failed secondary conversion assigns nothing: the candidate is kept, and its
  episode sequence is empty.\<close>

theorem secondary_failure_drops_primary:
  assumes "parseString_body ext i r name = Some pr"
      and "captured r name ''ep_num'' = Some m0"
      and "strconv_ParseInt (strings_TrimLeft m0 ''0'') = Inr en"
      and "captured r name ''extra_ep_num'' = Some x"
      and "strconv_ParseInt x = Inl err"
  shows "EpisodeNumbers pr = [] \<and> EpisodeNumbers pr \<noteq> [en]"
  using EpisodeNumbers_parseString_body [OF assms(1,2)] assms(3,4,5) by simp

theorem secondary_failure_drops_primary_witness:
  "parseString_body ext0 0 rule_multi_ep ''Show.E05-Ex6'' =
     Some \<lparr> OriginalName = ''Show.E05-Ex6'', SeriesName = [], SeasonNumber = 0,
            EpisodeNumbers = [], ExtraInfo = [], ReleaseGroup = [], AirDate = (1, 1, 1),
            AbsoluteEpisodeNumbers = [], Score = 0, Quality = 0, Version = [],
            RegexUsed = ''multi_ep'' \<rparr> \<and>
   captured rule_multi_ep ''Show.E05-Ex6'' ''ep_num'' = Some ''05'' \<and>
   strconv_ParseInt (strings_TrimLeft ''05'' ''0'') = Inr 5 \<and>
   captured rule_multi_ep ''Show.E05-Ex6'' ''extra_ep_num'' = Some ''x6'' \<and>
   strconv_ParseInt ''x6'' = Inl ErrSyntax \<and>
   EpisodeNumbers \<lparr> OriginalName = ''Show.E05-Ex6'', SeriesName = [], SeasonNumber = 0,
            EpisodeNumbers = [], ExtraInfo = [], ReleaseGroup = [],
            AirDate = (1, 1, 1) :: int \<times> int \<times> int,
            AbsoluteEpisodeNumbers = [], Score = 0, Quality = 0 :: nat, Version = [],
            RegexUsed = ''multi_ep'' \<rparr> \<noteq> [5]"
proof -
  have b: "parseString_body ext0 0 rule_multi_ep ''Show.E05-Ex6'' =
     Some \<lparr> OriginalName = ''Show.E05-Ex6'', SeriesName = [], SeasonNumber = 0,
            EpisodeNumbers = [], ExtraInfo = [], ReleaseGroup = [], AirDate = (1, 1, 1),
            AbsoluteEpisodeNumbers = [], Score = 0, Quality = 0, Version = [],
            RegexUsed = ''multi_ep'' \<rparr>"
    by code_simp
  have c1: "captured rule_multi_ep ''Show.E05-Ex6'' ''ep_num'' = Some ''05''" by code_simp
  have c2: "strconv_ParseInt (strings_TrimLeft ''05'' ''0'') = Inr 5" by code_simp
  have c3: "captured rule_multi_ep ''Show.E05-Ex6'' ''extra_ep_num'' = Some ''x6''" by code_simp
  have c4: "strconv_ParseInt ''x6'' = Inl ErrSyntax" by code_simp
  from secondary_failure_drops_primary [OF b c1 c2 c3 c4] show ?thesis
    using b c1 c2 c3 c4 by simp
qed


subsection \<open>Captures of zeros\<close>






subsection \<open>Numbers converted from digits\<close>











subsection \<open>The order of the candidates\<close>

lemma mset_insert_by: "mset (insert_by lt x ys) = add_mset x (mset ys)"
  by (induction ys) simp_all

lemma mset_insertion_sort: "mset (insertion_sort lt xs) = mset xs"
  by (induction xs) (simp_all add: insertion_sort_def mset_insert_by)

lemma set_insert_by: "set (insert_by lt x ys) = insert x (set ys)"
  by (induction ys) auto

lemma sorted_insert_by:
  "sorted_wrt (\<lambda>a b. Score b \<le> Score a) ys \<Longrightarrow>
   sorted_wrt (\<lambda>a b. Score b \<le> Score a) (insert_by (sort_Reverse byScore_Less) x ys)"
  by (induction ys) (auto simp: set_insert_by sort_Reverse_def byScore_Less_def)

lemma sorted_insertion_sort:
  "sorted_wrt (\<lambda>a b. Score b \<le> Score a) (insertion_sort (sort_Reverse byScore_Less) xs)"
  by (induction xs) (simp_all add: insertion_sort_def sorted_insert_by)

lemma sort_Sort_ok_ext0: "sort_Sort_ok ext0"
proof -
  have srt: "sort_Sort ext0 = insertion_sort" by (simp add: ext0_def)
  have rel: "(\<lambda>a b. \<not> sort_Reverse byScore_Less b a) =
             (\<lambda>a b :: (int \<times> int \<times> int, nat) ParseResult. Score b \<le> Score a)"
    by (simp add: sort_Reverse_def byScore_Less_def not_less)
  show ?thesis
    unfolding sort_Sort_ok_def srt rel
    by (simp add: mset_insertion_sort sorted_insertion_sort)
qed

lemma sort_Sort_okD:
  assumes "sort_Sort_ok ext"
  shows "mset (sort_Sort ext (sort_Reverse byScore_Less) xs) = mset xs"
    and "sorted_wrt (\<lambda>a b. Score b \<le> Score a) (sort_Sort ext (sort_Reverse byScore_Less) xs)"
  using assms by (simp_all add: sort_Sort_ok_def sort_Reverse_def byScore_Less_def not_less)

lemma parseString_error:
  assumes "snd (parseString ext np name) \<noteq> None"
  shows "parseString ext np name =
           (ParseResult_zero ext, Some (Errorf (''Couldn't parse string '' @ name)))"
  using assms by (auto simp: parseString_def Let_def split: list.splits)

lemma parseString_empty:
  assumes "sort_Sort_ok ext" and "parseString_loop ext name 0 (Regexes np) [] = []"
  shows "snd (parseString ext np name) \<noteq> None"
proof -
  have "mset (sort_Sort ext (sort_Reverse byScore_Less) []) = {#}"
    using sort_Sort_okD(1) [OF assms(1), of "[]"] by simp
  then have "sort_Sort ext (sort_Reverse byScore_Less) [] = []" by simp
  then show ?thesis by (simp add: parseString_def assms(2))
qed

lemma parseString_best:
  assumes ok: "sort_Sort_ok ext" and ne: "parseString_loop ext name 0 (Regexes np) [] \<noteq> []"
  shows "\<exists>best. parseString ext np name = (best, None) \<and>
           best \<in> set (parseString_loop ext name 0 (Regexes np) []) \<and>
           (\<forall>c \<in> set (parseString_loop ext name 0 (Regexes np) []). Score c \<le> Score best)"
proof -
  let ?cands = "parseString_loop ext name 0 (Regexes np) []"
  let ?sorted = "sort_Sort ext (sort_Reverse byScore_Less) ?cands"
  have m: "mset ?sorted = mset ?cands" by (rule sort_Sort_okD(1) [OF ok])
  have s: "sorted_wrt (\<lambda>a b. Score b \<le> Score a) ?sorted" by (rule sort_Sort_okD(2) [OF ok])
  from m ne have "?sorted \<noteq> []" by (metis mset_zero_iff)
  then obtain best rest where br: "?sorted = best # rest" by (cases ?sorted) auto
  have sets: "set ?cands = set ?sorted" using m by (metis mset_eq_setD)
  have "\<forall>c \<in> set ?sorted. Score c \<le> Score best"
    using s unfolding br by auto
  moreover have "best \<in> set ?sorted" unfolding br by simp
  moreover have "parseString ext np name = (best, None)"
    by (simp add: parseString_def br)
  ultimately show ?thesis using sets by blast
qed

lemma candidates_iff:
  "c \<in> set (parseString_loop ext name 0 rs []) \<longleftrightarrow>
     (\<exists>k < length rs. parseString_body ext k (rs ! k) name = Some c)"
  by (simp add: set_parseString_loop)

text \<open>Claim C8: \<^verbatim>\<open>parseString\<close> returns an error exactly when no rule of the catalog
  gives a candidate for the input, and then the result beside the error is the
  zero \<^verbatim>\<open>ParseResult\<close>, every field empty.\<close>

theorem parseString_NoMatch:
  assumes "sort_Sort_ok ext"
  shows "(snd (parseString ext np name) \<noteq> None \<longleftrightarrow>
            (\<forall>k < length (Regexes np). parseString_body ext k (Regexes np ! k) name = None)) \<and>
         (snd (parseString ext np name) \<noteq> None \<longrightarrow>
            parseString ext np name =
              (ParseResult_zero ext, Some (Errorf (''Couldn't parse string '' @ name))))"
proof -
  have "snd (parseString ext np name) \<noteq> None \<longleftrightarrow>
          parseString_loop ext name 0 (Regexes np) [] = []"
  proof
    assume e: "snd (parseString ext np name) \<noteq> None"
    show "parseString_loop ext name 0 (Regexes np) [] = []"
    proof (rule ccontr)
      assume "parseString_loop ext name 0 (Regexes np) [] \<noteq> []"
      from parseString_best [OF assms this] e show False by auto
    qed
  next
    assume "parseString_loop ext name 0 (Regexes np) [] = []"
    from parseString_empty [OF assms this] show "snd (parseString ext np name) \<noteq> None" .
  qed
  then show ?thesis
    using parseString_error [of ext np name] by (simp add: parseString_loop_Nil_iff)
qed

theorem parseString_NoMatch_witness:
  "sort_Sort_ok ext0 \<and> length (Regexes np_pair) = 2 \<and>
   parseString_body ext0 0 (Regexes np_pair ! 0) ''Other.Name'' = None \<and>
   parseString_body ext0 1 (Regexes np_pair ! 1) ''Other.Name'' = None \<and>
   parseString ext0 np_pair ''Other.Name'' =
     (ParseResult_zero ext0, Some (Errorf ''Couldn't parse string Other.Name'')) \<and>
   parseString_body ext0 0 (Regexes np_pair ! 0) ''Show.S01E02-GRP'' \<noteq> None \<and>
   snd (parseString ext0 np_pair ''Show.S01E02-GRP'') = None"
proof -
  have len: "length (Regexes np_pair) = 2" by (simp add: np_pair_def)
  have b0: "parseString_body ext0 0 (Regexes np_pair ! 0) ''Other.Name'' = None" by code_simp
  have b1: "parseString_body ext0 1 (Regexes np_pair ! 1) ''Other.Name'' = None" by code_simp
  have c0: "parseString_body ext0 0 (Regexes np_pair ! 0) ''Show.S01E02-GRP'' \<noteq> None"
    by code_simp
  have none: "\<forall>k < length (Regexes np_pair).
                parseString_body ext0 k (Regexes np_pair ! k) ''Other.Name'' = None"
  proof (intro allI impI)
    fix k assume "k < length (Regexes np_pair)"
    with len have "k = 0 \<or> k = 1" by auto
    with b0 b1 show "parseString_body ext0 k (Regexes np_pair ! k) ''Other.Name'' = None"
      by auto
  qed
  have some: "\<not> (\<forall>k < length (Regexes np_pair).
                parseString_body ext0 k (Regexes np_pair ! k) ''Show.S01E02-GRP'' = None)"
  proof
    assume "\<forall>k < length (Regexes np_pair).
              parseString_body ext0 k (Regexes np_pair ! k) ''Show.S01E02-GRP'' = None"
    then have "parseString_body ext0 0 (Regexes np_pair ! 0) ''Show.S01E02-GRP'' = None"
      using len by simp
    with c0 show False by simp
  qed
  note t1 = parseString_NoMatch [OF sort_Sort_ok_ext0, of np_pair "''Other.Name''"]
  note t2 = parseString_NoMatch [OF sort_Sort_ok_ext0, of np_pair "''Show.S01E02-GRP''"]
  from t1 none have r1: "parseString ext0 np_pair ''Other.Name'' =
     (ParseResult_zero ext0, Some (Errorf ''Couldn't parse string Other.Name''))"
    by simp
  from t2 some have r2: "snd (parseString ext0 np_pair ''Show.S01E02-GRP'') = None"
    by blast
  show ?thesis
    using sort_Sort_ok_ext0 len b0 b1 c0 r1 r2 by simp
qed

subsection \<open>The winner\<close>

lemma names_kept:
  "RegexUsed (on_series_name m p) = RegexUsed p"
  "RegexUsed (on_series_num m p) = RegexUsed p"
  "RegexUsed (on_release_group m p) = RegexUsed p"
  "RegexUsed (on_version m p) = RegexUsed p"
  by (simp_all add: on_series_name_def on_series_num_def on_release_group_def on_version_def
                    split: option.splits)

lemma names_kept_opt:
  "on_season_num m p = Some p' \<Longrightarrow> RegexUsed p' = RegexUsed p"
  "on_ep_num m p = Some p' \<Longrightarrow> RegexUsed p' = RegexUsed p"
  "on_ep_ab_num m p = Some p' \<Longrightarrow> RegexUsed p' = RegexUsed p"
  "on_air_date ext m p = Some p' \<Longrightarrow> RegexUsed p' = RegexUsed p"
  by (auto simp: on_season_num_def on_ep_num_def on_ep_ab_num_def on_air_date_def Let_def
           split: option.splits sum.splits prod.splits if_splits)

lemma RegexUsed_parseString_body:
  assumes "parseString_body ext i r name = Some pr"
  shows "RegexUsed pr = Name r"
proof -
  from parseString_body_SomeD [OF assms]
  obtain matches p1 p2 p3 p4 where
    s1: "on_season_num matches
           (on_series_num matches (on_series_name matches
              ((ParseResult_zero ext)\<lparr>OriginalName := name, RegexUsed := Name r,
                                       Score := 0 - int i\<rparr>))) = Some p1"
    and s2: "on_ep_num matches p1 = Some p2"
    and s3: "on_ep_ab_num matches p2 = Some p3"
    and s4: "on_air_date ext matches p3 = Some p4"
    and s5: "pr = on_version matches (on_release_group matches p4)"
    by auto
  show ?thesis
    using names_kept_opt(1) [OF s1] names_kept_opt(2) [OF s2] names_kept_opt(3) [OF s3]
          names_kept_opt(4) [OF s4]
    by (simp add: s5 names_kept)
qed

lemma winner_of_pair:
  assumes ok: "sort_Sort_ok ext"
      and ij: "i < j" "j < length (Regexes np)"
      and ci: "parseString_body ext i (Regexes np ! i) name = Some ci"
      and cj: "parseString_body ext j (Regexes np ! j) name = Some cj"
      and bonus: "Score ci + int i = Score cj + int j"
  shows "snd (parseString ext np name) = None \<and>
         (\<exists>k < length (Regexes np).
            parseString_body ext k (Regexes np ! k) name = Some (fst (parseString ext np name))) \<and>
         (\<forall>k c. k < length (Regexes np) \<and> parseString_body ext k (Regexes np ! k) name = Some c
            \<longrightarrow> Score c \<le> Score (fst (parseString ext np name))) \<and>
         Score cj < Score (fst (parseString ext np name)) \<and>
         ((\<forall>k. k < length (Regexes np) \<and> k \<noteq> i \<and> k \<noteq> j
              \<longrightarrow> parseString_body ext k (Regexes np ! k) name = None)
            \<longrightarrow> fst (parseString ext np name) = ci \<and>
                RegexUsed (fst (parseString ext np name)) = Name (Regexes np ! i))"
proof -
  let ?cands = "parseString_loop ext name 0 (Regexes np) []"
  have i: "i < length (Regexes np)" using ij by simp
  have ci_in: "ci \<in> set ?cands" using ci i by (auto simp: candidates_iff)
  then have "?cands \<noteq> []" by auto
  from parseString_best [OF ok this] obtain best where
    res: "parseString ext np name = (best, None)"
    and best_in: "best \<in> set ?cands"
    and best_max: "\<forall>c \<in> set ?cands. Score c \<le> Score best"
    by blast
  from best_in obtain k where k: "k < length (Regexes np)"
    "parseString_body ext k (Regexes np ! k) name = Some best"
    by (auto simp: candidates_iff)
  have lt: "Score cj < Score ci" using bonus ij(1) by simp
  have le: "Score ci \<le> Score best" using best_max ci_in by blast
  have only: "best = ci \<and> RegexUsed best = Name (Regexes np ! i)"
    if "\<forall>k. k < length (Regexes np) \<and> k \<noteq> i \<and> k \<noteq> j
            \<longrightarrow> parseString_body ext k (Regexes np ! k) name = None"
  proof -
    from that k have "k = i \<or> k = j" by auto
    moreover have "k \<noteq> j" using k(2) cj lt le by auto
    ultimately have "best = ci" using k(2) ci by simp
    with RegexUsed_parseString_body [OF ci] show ?thesis by simp
  qed
  have max: "\<forall>k c. k < length (Regexes np) \<and>
               parseString_body ext k (Regexes np ! k) name = Some c \<longrightarrow> Score c \<le> Score best"
    using best_max by (auto simp: candidates_iff)
  show ?thesis
    unfolding res fst_conv snd_conv
    using k max lt le only by (intro conjI) auto
qed

text \<open>Claim C7: \<^verbatim>\<open>parseString\<close> returns a candidate of maximal score. When two rules
  give candidates with the same number of bonus points, the later one has the
  smaller score and is not returned; when no third rule gives a candidate, the
  result is the candidate of the earlier rule and records its name.\<close>

theorem earlier_rule_wins:
  assumes ok: "sort_Sort_ok ext"
  shows "(\<forall>k c. k < length (Regexes np) \<and>
                parseString_body ext k (Regexes np ! k) name = Some c \<longrightarrow>
            snd (parseString ext np name) = None \<and>
            (\<exists>k' < length (Regexes np).
               parseString_body ext k' (Regexes np ! k') name =
                 Some (fst (parseString ext np name))) \<and>
            Score c \<le> Score (fst (parseString ext np name))) \<and>
         (\<forall>i j ci cj.
            i < j \<and> j < length (Regexes np) \<and>
            parseString_body ext i (Regexes np ! i) name = Some ci \<and>
            parseString_body ext j (Regexes np ! j) name = Some cj \<and>
            Score ci + int i = Score cj + int j \<longrightarrow>
            Score cj < Score (fst (parseString ext np name)) \<and>
            ((\<forall>k. k < length (Regexes np) \<and> k \<noteq> i \<and> k \<noteq> j
                 \<longrightarrow> parseString_body ext k (Regexes np ! k) name = None)
               \<longrightarrow> fst (parseString ext np name) = ci \<and>
                   RegexUsed (fst (parseString ext np name)) = Name (Regexes np ! i)))"
proof (intro conjI allI impI)
  fix k c
  assume a: "k < length (Regexes np) \<and> parseString_body ext k (Regexes np ! k) name = Some c"
  let ?cands = "parseString_loop ext name 0 (Regexes np) []"
  from a have c_in: "c \<in> set ?cands" by (auto simp: candidates_iff)
  then have "?cands \<noteq> []" by auto
  from parseString_best [OF ok this] obtain best where
    res: "parseString ext np name = (best, None)"
    and best_in: "best \<in> set ?cands"
    and best_max: "\<forall>c \<in> set ?cands. Score c \<le> Score best"
    by blast
  show "snd (parseString ext np name) = None" by (simp add: res)
  show "\<exists>k' < length (Regexes np).
          parseString_body ext k' (Regexes np ! k') name = Some (fst (parseString ext np name))"
    using best_in by (simp add: res candidates_iff)
  show "Score c \<le> Score (fst (parseString ext np name))"
    using best_max c_in by (simp add: res)
next
  fix i j and ci cj :: "('a, 'b) ParseResult"
  assume a: "i < j \<and> j < length (Regexes np) \<and>
             parseString_body ext i (Regexes np ! i) name = Some ci \<and>
             parseString_body ext j (Regexes np ! j) name = Some cj \<and>
             Score ci + int i = Score cj + int j"
  note t = winner_of_pair [OF ok, of i j np name ci cj]
  from t a show "Score cj < Score (fst (parseString ext np name))" by blast
  assume "\<forall>k. k < length (Regexes np) \<and> k \<noteq> i \<and> k \<noteq> j
             \<longrightarrow> parseString_body ext k (Regexes np ! k) name = None"
  with t a show "fst (parseString ext np name) = ci" by blast
next
  fix i j and ci cj :: "('a, 'b) ParseResult"
  assume a: "i < j \<and> j < length (Regexes np) \<and>
             parseString_body ext i (Regexes np ! i) name = Some ci \<and>
             parseString_body ext j (Regexes np ! j) name = Some cj \<and>
             Score ci + int i = Score cj + int j"
    and b: "\<forall>k. k < length (Regexes np) \<and> k \<noteq> i \<and> k \<noteq> j
             \<longrightarrow> parseString_body ext k (Regexes np ! k) name = None"
  note t = winner_of_pair [OF ok, of i j np name ci cj]
  from t a b show "RegexUsed (fst (parseString ext np name)) = Name (Regexes np ! i)" by blast
qed

theorem earlier_rule_wins_witness:
  "sort_Sort_ok ext0 \<and> (0::nat) < 1 \<and> 1 < length (Regexes np_pair) \<and>
   parseString_body ext0 0 (Regexes np_pair ! 0) ''Show.S01E02-GRP'' = Some cand_first \<and>
   parseString_body ext0 1 (Regexes np_pair ! 1) ''Show.S01E02-GRP'' = Some cand_second \<and>
   Score cand_first + int 0 = Score cand_second + int 1 \<and>
   Score cand_second < Score cand_first \<and>
   parseString ext0 np_pair ''Show.S01E02-GRP'' = (cand_first, None) \<and>
   RegexUsed cand_first = ''first'' \<and> Name (Regexes np_pair ! 0) = ''first''"
proof -
  have len: "1 < length (Regexes np_pair)" "length (Regexes np_pair) = 2"
    by (simp_all add: np_pair_def)
  have ci: "parseString_body ext0 0 (Regexes np_pair ! 0) ''Show.S01E02-GRP'' = Some cand_first"
    by code_simp
  have cj: "parseString_body ext0 1 (Regexes np_pair ! 1) ''Show.S01E02-GRP'' = Some cand_second"
    by code_simp
  have bonus: "Score cand_first + int 0 = Score cand_second + int 1"
    by (simp add: cand_first_def cand_second_def)
  have only: "\<forall>k. k < length (Regexes np_pair) \<and> k \<noteq> 0 \<and> k \<noteq> 1 \<longrightarrow>
                parseString_body ext0 k (Regexes np_pair ! k) ''Show.S01E02-GRP'' = None"
    using len(2) by auto
  have nm: "Name (Regexes np_pair ! 0) = ''first''" by (simp add: np_pair_def exact_rule_def)
  have lt: "(0::nat) < 1" by simp
  note t = earlier_rule_wins [OF sort_Sort_ok_ext0, of np_pair "''Show.S01E02-GRP''"]
  from t have pair:
    "0 < (1::nat) \<and> 1 < length (Regexes np_pair) \<and>
     parseString_body ext0 0 (Regexes np_pair ! 0) ''Show.S01E02-GRP'' = Some cand_first \<and>
     parseString_body ext0 1 (Regexes np_pair ! 1) ''Show.S01E02-GRP'' = Some cand_second \<and>
     Score cand_first + int 0 = Score cand_second + int 1 \<longrightarrow>
     Score cand_second < Score (fst (parseString ext0 np_pair ''Show.S01E02-GRP'')) \<and>
     ((\<forall>k. k < length (Regexes np_pair) \<and> k \<noteq> 0 \<and> k \<noteq> 1
          \<longrightarrow> parseString_body ext0 k (Regexes np_pair ! k) ''Show.S01E02-GRP'' = None)
        \<longrightarrow> fst (parseString ext0 np_pair ''Show.S01E02-GRP'') = cand_first \<and>
            RegexUsed (fst (parseString ext0 np_pair ''Show.S01E02-GRP'')) =
              Name (Regexes np_pair ! 0))"
    by blast
  from t have first:
    "0 < length (Regexes np_pair) \<and>
     parseString_body ext0 0 (Regexes np_pair ! 0) ''Show.S01E02-GRP'' = Some cand_first \<longrightarrow>
     snd (parseString ext0 np_pair ''Show.S01E02-GRP'') = None"
    by blast
  have r1: "snd (parseString ext0 np_pair ''Show.S01E02-GRP'') = None"
    using first ci len(2) by simp
  have r2: "fst (parseString ext0 np_pair ''Show.S01E02-GRP'') = cand_first"
    using pair only lt len(1) ci cj bonus by blast
  have r3: "RegexUsed (fst (parseString ext0 np_pair ''Show.S01E02-GRP'')) =
              Name (Regexes np_pair ! 0)"
    using pair only lt len(1) ci cj bonus by blast
  have r4: "Score cand_second < Score cand_first"
    using pair r2 lt len(1) ci cj bonus by simp
  have r: "parseString ext0 np_pair ''Show.S01E02-GRP'' = (cand_first, None)"
    using r1 r2 by (simp add: prod_eq_iff)
  have r5: "RegexUsed cand_first = ''first''"
    using r3 r2 nm by simp
  show ?thesis
    using sort_Sort_ok_ext0 lt len(1) ci cj bonus r r4 r5 nm by simp
qed

subsection \<open>The merge of the three parses\<close>

lemma length_Ext_scan: "length (Ext_scan cs acc) \<le> length cs + length acc"
proof (induction cs arbitrary: acc)
  case Nil
  show ?case by simp
next
  case (Cons c cs)
  from Cons.IH [of "c # acc"] show ?case by simp
qed

lemma stripExtension_Inr:
  "stripExtension fname = Inr (take (length fname - length (filepath_Ext fname)) fname)"
  using length_Ext_scan [of "rev fname" "[]"]
  by (simp add: stripExtension_def filepath_Ext_def Let_def)

lemma combineResults_AirDate:
  "combineResults ext fin a b ''AirDate'' = Inr (fin\<lparr>AirDate := AirDate a\<rparr>, None)"
  by (simp add: combineResults_def FieldByName_def Set_field_def isEmptyValue_def)

lemma combineResults_AbsoluteEpisodeNumbers:
  "combineResults ext fin a b ''AbsoluteEpisodeNumbers'' =
     Inr (fin\<lparr>AbsoluteEpisodeNumbers :=
                 if AbsoluteEpisodeNumbers a \<noteq> [] then AbsoluteEpisodeNumbers a
                 else AbsoluteEpisodeNumbers b\<rparr>, None)"
  by (simp add: combineResults_def FieldByName_def Set_field_def isEmptyValue_def)

lemma combineResults_SeasonNumber:
  "combineResults ext fin a b ''SeasonNumber'' =
     Inr (fin\<lparr>SeasonNumber := if SeasonNumber a \<noteq> 0 then SeasonNumber a else SeasonNumber b\<rparr>,
          None)"
  by (simp add: combineResults_def FieldByName_def Set_field_def isEmptyValue_def)

lemma combineResults_EpisodeNumbers:
  "combineResults ext fin a b ''EpisodeNumbers'' =
     Inr (fin\<lparr>EpisodeNumbers :=
                 if EpisodeNumbers a \<noteq> [] then EpisodeNumbers a else EpisodeNumbers b\<rparr>, None)"
  by (simp add: combineResults_def FieldByName_def Set_field_def isEmptyValue_def)

lemma combineResults_SeriesName:
  "combineResults ext fin a b ''SeriesName'' =
     Inr (fin\<lparr>SeriesName := if SeriesName a \<noteq> [] then SeriesName a else SeriesName b\<rparr>, None)"
  by (simp add: combineResults_def FieldByName_def Set_field_def isEmptyValue_def)

lemma combineResults_ExtraInfo:
  "combineResults ext fin a b ''ExtraInfo'' =
     Inr (fin\<lparr>ExtraInfo := if ExtraInfo a \<noteq> [] then ExtraInfo a else ExtraInfo b\<rparr>, None)"
  by (simp add: combineResults_def FieldByName_def Set_field_def isEmptyValue_def)

lemma combineResults_ReleaseGroup:
  "combineResults ext fin a b ''ReleaseGroup'' =
     Inr (fin\<lparr>ReleaseGroup := if ReleaseGroup a \<noteq> [] then ReleaseGroup a else ReleaseGroup b\<rparr>,
          None)"
  by (simp add: combineResults_def FieldByName_def Set_field_def isEmptyValue_def)

lemma combineResults_Version:
  "combineResults ext fin a b ''Version'' =
     Inr (fin\<lparr>Version := if Version a \<noteq> [] then Version a else Version b\<rparr>, None)"
  by (simp add: combineResults_def FieldByName_def Set_field_def isEmptyValue_def)

lemmas combineResults_fields =
  combineResults_AirDate combineResults_AbsoluteEpisodeNumbers combineResults_SeasonNumber
  combineResults_EpisodeNumbers combineResults_SeriesName combineResults_ExtraInfo
  combineResults_ReleaseGroup combineResults_Version

lemma ParseFile_merged:
  assumes "filepath_Split name = (dirName, fileName0)"
      and "stripExtension fileName0 = Inr fileName"
  shows "ParseFile ext np name =
           Inr ((fst (parseString ext np name))
                 \<lparr> AirDate := AirDate (fst (parseString ext np fileName)),
                   AbsoluteEpisodeNumbers :=
                     if AbsoluteEpisodeNumbers (fst (parseString ext np fileName)) \<noteq> []
                     then AbsoluteEpisodeNumbers (fst (parseString ext np fileName))
                     else AbsoluteEpisodeNumbers (fst (parseString ext np (filepath_Base dirName))),
                   SeasonNumber :=
                     if SeasonNumber (fst (parseString ext np fileName)) \<noteq> 0
                     then SeasonNumber (fst (parseString ext np fileName))
                     else SeasonNumber (fst (parseString ext np (filepath_Base dirName))),
                   EpisodeNumbers :=
                     if EpisodeNumbers (fst (parseString ext np fileName)) \<noteq> []
                     then EpisodeNumbers (fst (parseString ext np fileName))
                     else EpisodeNumbers (fst (parseString ext np (filepath_Base dirName))),
                   SeriesName :=
                     if SeriesName (fst (parseString ext np (filepath_Base dirName))) \<noteq> []
                     then SeriesName (fst (parseString ext np (filepath_Base dirName)))
                     else SeriesName (fst (parseString ext np fileName)),
                   ExtraInfo :=
                     if ExtraInfo (fst (parseString ext np (filepath_Base dirName))) \<noteq> []
                     then ExtraInfo (fst (parseString ext np (filepath_Base dirName)))
                     else ExtraInfo (fst (parseString ext np fileName)),
                   ReleaseGroup :=
                     if ReleaseGroup (fst (parseString ext np (filepath_Base dirName))) \<noteq> []
                     then ReleaseGroup (fst (parseString ext np (filepath_Base dirName)))
                     else ReleaseGroup (fst (parseString ext np fileName)),
                   Version :=
                     if Version (fst (parseString ext np (filepath_Base dirName))) \<noteq> []
                     then Version (fst (parseString ext np (filepath_Base dirName)))
                     else Version (fst (parseString ext np fileName)),
                   Quality := QualityFromName ext name False \<rparr>)"
  by (simp only: ParseFile_def assms Let_def prod.case sum.case combine_calls.simps
                 combineResults_fields)

subsection \<open>What the merge keeps of the full-path parse\<close>

lemma forms_full:
  "filepath_Split ''/tv/misc/ep.mkv'' = (''/tv/misc/'', ''ep.mkv'')"
  "stripExtension ''ep.mkv'' = Inr ''ep''"
  "filepath_Base ''/tv/misc/'' = ''misc''"
  by code_simp+

lemma parses_full:
  "parseString ext0 np_full ''/tv/misc/ep.mkv'' = (parsed_full, None)"
  "parseString ext0 np_full ''ep'' =
     (ParseResult_zero ext0, Some (Errorf ''Couldn't parse string ep''))"
  "parseString ext0 np_full ''misc'' =
     (ParseResult_zero ext0, Some (Errorf ''Couldn't parse string misc''))"
  by code_simp+

lemma ParseFile_full: "ParseFile ext0 np_full ''/tv/misc/ep.mkv'' = Inr merged_full"
  by code_simp

text \<open>Claim C1 says that a field that is populated on the full-path result, and
  empty in both the preferred and the fallback source, keeps the full-path value.
  \<^verbatim>\<open>combineResults\<close> never reads the field of \<^verbatim>\<open>finalRes\<close>: it stores the preferred
  value or else the fallback value. On a path that only the full-path rule matches,
  the series name and the season number of the full-path parse are lost.\<close>

theorem seeded_value_overwritten:
  "filepath_Split ''/tv/misc/ep.mkv'' = (''/tv/misc/'', ''ep.mkv'') \<and>
   stripExtension ''ep.mkv'' = Inr ''ep'' \<and>
   filepath_Base ''/tv/misc/'' = ''misc'' \<and>
   SeriesName (fst (parseString ext0 np_full ''/tv/misc/ep.mkv'')) = ''Show'' \<and>
   SeriesName (fst (parseString ext0 np_full ''misc'')) = [] \<and>
   SeriesName (fst (parseString ext0 np_full ''ep'')) = [] \<and>
   ParseFile ext0 np_full ''/tv/misc/ep.mkv'' = Inr merged_full \<and>
   SeriesName merged_full = [] \<and>
   SeasonNumber (fst (parseString ext0 np_full ''/tv/misc/ep.mkv'')) = 1 \<and>
   SeasonNumber (fst (parseString ext0 np_full ''ep'')) = 0 \<and>
   SeasonNumber (fst (parseString ext0 np_full ''misc'')) = 0 \<and>
   SeasonNumber merged_full = 0"
  by (simp add: forms_full parses_full ParseFile_full parsed_full_def merged_full_def
                ParseResult_zero_def)

text \<open>Claim C1, as amended: for each of the eight merged fields, when the field is
  empty in both the preferred and the fallback source, it is empty in the final
  result, also when the full-path parse had a value there. The theorem records as
  well what the final result does keep of the full-path parse: the original name,
  the rule name and the score, which are not merged.\<close>

theorem merge_both_empty:
  assumes "filepath_Split name = (dirName, fileName0)"
      and "stripExtension fileName0 = Inr fileName"
      and "ParseFile ext np name = Inr r"
  shows "(AirDate (fst (parseString ext np fileName)) = time_zero ext \<and>
          AirDate (fst (parseString ext np (filepath_Base dirName))) = time_zero ext
            \<longrightarrow> AirDate r = time_zero ext) \<and>
         (AbsoluteEpisodeNumbers (fst (parseString ext np fileName)) = [] \<and>
          AbsoluteEpisodeNumbers (fst (parseString ext np (filepath_Base dirName))) = []
            \<longrightarrow> AbsoluteEpisodeNumbers r = []) \<and>
         (SeasonNumber (fst (parseString ext np fileName)) = 0 \<and>
          SeasonNumber (fst (parseString ext np (filepath_Base dirName))) = 0
            \<longrightarrow> SeasonNumber r = 0) \<and>
         (EpisodeNumbers (fst (parseString ext np fileName)) = [] \<and>
          EpisodeNumbers (fst (parseString ext np (filepath_Base dirName))) = []
            \<longrightarrow> EpisodeNumbers r = []) \<and>
         (SeriesName (fst (parseString ext np (filepath_Base dirName))) = [] \<and>
          SeriesName (fst (parseString ext np fileName)) = []
            \<longrightarrow> SeriesName r = []) \<and>
         (ExtraInfo (fst (parseString ext np (filepath_Base dirName))) = [] \<and>
          ExtraInfo (fst (parseString ext np fileName)) = []
            \<longrightarrow> ExtraInfo r = []) \<and>
         (ReleaseGroup (fst (parseString ext np (filepath_Base dirName))) = [] \<and>
          ReleaseGroup (fst (parseString ext np fileName)) = []
            \<longrightarrow> ReleaseGroup r = []) \<and>
         (Version (fst (parseString ext np (filepath_Base dirName))) = [] \<and>
          Version (fst (parseString ext np fileName)) = []
            \<longrightarrow> Version r = []) \<and>
         OriginalName r = OriginalName (fst (parseString ext np name)) \<and>
         RegexUsed r = RegexUsed (fst (parseString ext np name)) \<and>
         Score r = Score (fst (parseString ext np name))"
proof -
  from assms(3) have r: "r = projr (ParseFile ext np name)" by simp
  show ?thesis
    unfolding r ParseFile_merged [OF assms(1,2)] by simp
qed

theorem merge_both_empty_witness:
  "filepath_Split ''/tv/misc/ep.mkv'' = (''/tv/misc/'', ''ep.mkv'') \<and>
   stripExtension ''ep.mkv'' = Inr ''ep'' \<and>
   ParseFile ext0 np_full ''/tv/misc/ep.mkv'' = Inr merged_full \<and>
   fst (parseString ext0 np_full ''ep'') = ParseResult_zero ext0 \<and>
   fst (parseString ext0 np_full (filepath_Base ''/tv/misc/'')) = ParseResult_zero ext0 \<and>
   fst (parseString ext0 np_full ''/tv/misc/ep.mkv'') = parsed_full \<and>
   AirDate (ParseResult_zero ext0) = time_zero ext0 \<and>
   AbsoluteEpisodeNumbers (ParseResult_zero ext0) = [] \<and>
   SeasonNumber (ParseResult_zero ext0) = 0 \<and>
   EpisodeNumbers (ParseResult_zero ext0) = [] \<and>
   SeriesName (ParseResult_zero ext0) = [] \<and>
   ExtraInfo (ParseResult_zero ext0) = [] \<and>
   ReleaseGroup (ParseResult_zero ext0) = [] \<and>
   Version (ParseResult_zero ext0) = [] \<and>
   AirDate merged_full = time_zero ext0 \<and> AirDate parsed_full \<noteq> time_zero ext0 \<and>
   AbsoluteEpisodeNumbers merged_full = [] \<and> AbsoluteEpisodeNumbers parsed_full \<noteq> [] \<and>
   SeasonNumber merged_full = 0 \<and> SeasonNumber parsed_full \<noteq> 0 \<and>
   EpisodeNumbers merged_full = [] \<and> EpisodeNumbers parsed_full \<noteq> [] \<and>
   SeriesName merged_full = [] \<and> SeriesName parsed_full \<noteq> [] \<and>
   ExtraInfo merged_full = [] \<and>
   ReleaseGroup merged_full = [] \<and> ReleaseGroup parsed_full \<noteq> [] \<and>
   Version merged_full = [] \<and>
   OriginalName merged_full = ''/tv/misc/ep.mkv'' \<and>
   OriginalName parsed_full = ''/tv/misc/ep.mkv'' \<and>
   RegexUsed merged_full = ''full_path'' \<and> RegexUsed parsed_full = ''full_path'' \<and>
   Score merged_full = 4 \<and> Score parsed_full = 4"
proof -
  have z: "fst (parseString ext0 np_full ''ep'') = ParseResult_zero ext0"
    "fst (parseString ext0 np_full (filepath_Base ''/tv/misc/'')) = ParseResult_zero ext0"
    "fst (parseString ext0 np_full ''/tv/misc/ep.mkv'') = parsed_full"
    by (simp_all add: parses_full forms_full)
  have e: "AirDate (ParseResult_zero ext0) = time_zero ext0"
    "AbsoluteEpisodeNumbers (ParseResult_zero ext0) = []"
    "SeasonNumber (ParseResult_zero ext0) = 0"
    "EpisodeNumbers (ParseResult_zero ext0) = []"
    "SeriesName (ParseResult_zero ext0) = []"
    "ExtraInfo (ParseResult_zero ext0) = []"
    "ReleaseGroup (ParseResult_zero ext0) = []"
    "Version (ParseResult_zero ext0) = []"
    by (simp_all add: ParseResult_zero_def)
  have p: "AirDate parsed_full \<noteq> time_zero ext0" "AbsoluteEpisodeNumbers parsed_full \<noteq> []"
    "SeasonNumber parsed_full \<noteq> 0" "EpisodeNumbers parsed_full \<noteq> []"
    "SeriesName parsed_full \<noteq> []" "ReleaseGroup parsed_full \<noteq> []"
    "OriginalName parsed_full = ''/tv/misc/ep.mkv''" "RegexUsed parsed_full = ''full_path''"
    "Score parsed_full = 4"
    by (simp_all add: parsed_full_def ext0_def)
  note t = merge_both_empty [OF forms_full(1) forms_full(2) ParseFile_full]
  from t z e p have
    "AirDate merged_full = time_zero ext0 \<and> AbsoluteEpisodeNumbers merged_full = [] \<and>
     SeasonNumber merged_full = 0 \<and> EpisodeNumbers merged_full = [] \<and>
     SeriesName merged_full = [] \<and> ExtraInfo merged_full = [] \<and>
     ReleaseGroup merged_full = [] \<and> Version merged_full = [] \<and>
     OriginalName merged_full = ''/tv/misc/ep.mkv'' \<and> RegexUsed merged_full = ''full_path'' \<and>
     Score merged_full = 4"
    by simp
  with z e p forms_full ParseFile_full show ?thesis by simp
qed

subsection \<open>The precedence of the merge\<close>

text \<open>Claim C5 gives the precedence of the merge: the file-name value, or else the
  directory value, for the season number, the episode numbers and the absolute
  episode numbers, and the directory value, or else the file-name value, for the
  series name, the extra info, the release group and the version. These seven hold.
  For the air date \<^verbatim>\<open>isEmptyValue\<close> has no case for a struct and answers false, so
  the air date of the file-name parse is taken even when it is unset, and the
  directory's date is never used.\<close>

theorem merge_precedence:
  assumes "filepath_Split name = (dirName, fileName0)"
      and "stripExtension fileName0 = Inr fileName"
      and "ParseFile ext np name = Inr r"
  shows "AirDate r = AirDate (fst (parseString ext np fileName)) \<and>
         AbsoluteEpisodeNumbers r =
           (if AbsoluteEpisodeNumbers (fst (parseString ext np fileName)) \<noteq> []
            then AbsoluteEpisodeNumbers (fst (parseString ext np fileName))
            else AbsoluteEpisodeNumbers (fst (parseString ext np (filepath_Base dirName)))) \<and>
         SeasonNumber r =
           (if SeasonNumber (fst (parseString ext np fileName)) \<noteq> 0
            then SeasonNumber (fst (parseString ext np fileName))
            else SeasonNumber (fst (parseString ext np (filepath_Base dirName)))) \<and>
         EpisodeNumbers r =
           (if EpisodeNumbers (fst (parseString ext np fileName)) \<noteq> []
            then EpisodeNumbers (fst (parseString ext np fileName))
            else EpisodeNumbers (fst (parseString ext np (filepath_Base dirName)))) \<and>
         SeriesName r =
           (if SeriesName (fst (parseString ext np (filepath_Base dirName))) \<noteq> []
            then SeriesName (fst (parseString ext np (filepath_Base dirName)))
            else SeriesName (fst (parseString ext np fileName))) \<and>
         ExtraInfo r =
           (if ExtraInfo (fst (parseString ext np (filepath_Base dirName))) \<noteq> []
            then ExtraInfo (fst (parseString ext np (filepath_Base dirName)))
            else ExtraInfo (fst (parseString ext np fileName))) \<and>
         ReleaseGroup r =
           (if ReleaseGroup (fst (parseString ext np (filepath_Base dirName))) \<noteq> []
            then ReleaseGroup (fst (parseString ext np (filepath_Base dirName)))
            else ReleaseGroup (fst (parseString ext np fileName))) \<and>
         Version r =
           (if Version (fst (parseString ext np (filepath_Base dirName))) \<noteq> []
            then Version (fst (parseString ext np (filepath_Base dirName)))
            else Version (fst (parseString ext np fileName)))"
proof -
  from assms(3) have r: "r = projr (ParseFile ext np name)" by simp
  show ?thesis
    unfolding r ParseFile_merged [OF assms(1,2)] by simp
qed

lemma forms_dated:
  "filepath_Split ''/tv/2015-03-01/ep.mkv'' = (''/tv/2015-03-01/'', ''ep.mkv'')"
  "filepath_Base ''/tv/2015-03-01/'' = ''2015-03-01''"
  by code_simp+

lemma parses_dated:
  "parseString ext0 np_dated ''ep'' = (parsed_file, None)"
  "parseString ext0 np_dated ''2015-03-01'' = (parsed_dir, None)"
  by code_simp+

lemma ParseFile_dated: "ParseFile ext0 np_dated ''/tv/2015-03-01/ep.mkv'' = Inr merged_dated"
  by code_simp

theorem merge_precedence_witness:
  "filepath_Split ''/tv/2015-03-01/ep.mkv'' = (''/tv/2015-03-01/'', ''ep.mkv'') \<and>
   stripExtension ''ep.mkv'' = Inr ''ep'' \<and>
   ParseFile ext0 np_dated ''/tv/2015-03-01/ep.mkv'' = Inr merged_dated \<and>
   fst (parseString ext0 np_dated ''ep'') = parsed_file \<and>
   fst (parseString ext0 np_dated (filepath_Base ''/tv/2015-03-01/'')) = parsed_dir \<and>
   AirDate parsed_file = time_zero ext0 \<and>
   AirDate parsed_dir = (2015, 3, 1) \<and>
   AirDate merged_dated = time_zero ext0 \<and>
   AirDate merged_dated \<noteq> AirDate parsed_dir \<and>
   EpisodeNumbers merged_dated = EpisodeNumbers parsed_file"
proof -
  have z: "fst (parseString ext0 np_dated ''ep'') = parsed_file"
    "fst (parseString ext0 np_dated (filepath_Base ''/tv/2015-03-01/'')) = parsed_dir"
    by (simp_all add: parses_dated forms_dated)
  have d: "AirDate parsed_file = time_zero ext0" "AirDate parsed_dir = (2015, 3, 1)"
    by (simp_all add: parsed_file_def parsed_dir_def ext0_def)
  have e: "EpisodeNumbers parsed_file \<noteq> []" by (simp add: parsed_file_def)
  note t = merge_precedence [OF forms_dated(1) forms_full(2) ParseFile_dated]
  from t z d e have "AirDate merged_dated = time_zero ext0 \<and>
                     EpisodeNumbers merged_dated = EpisodeNumbers parsed_file"
    by simp
  with z d forms_dated forms_full ParseFile_dated show ?thesis
    by (simp add: ext0_def)
qed

subsection \<open>Totality of the path reconciliation\<close>

lemma parseString_error_fst:
  "snd (parseString ext np name) \<noteq> None \<Longrightarrow> fst (parseString ext np name) = ParseResult_zero ext"
  using parseString_error [of ext np name] by simp

lemma slot_fst: "slot ext np s = fst (parseString ext np s)"
proof (cases "snd (parseString ext np s)")
  case None
  then show ?thesis by (cases "parseString ext np s") (simp add: slot_def)
next
  case (Some err)
  then have "snd (parseString ext np s) \<noteq> None" by simp
  from parseString_error_fst [OF this] Some show ?thesis
    by (cases "parseString ext np s") (simp add: slot_def)
qed

lemma slot_failed:
  "snd (parseString ext np s) \<noteq> None \<Longrightarrow> slot ext np s = ParseResult_zero ext"
  by (cases "parseString ext np s") (auto simp: slot_def)

lemma slot_matched:
  "snd (parseString ext np s) = None \<Longrightarrow> slot ext np s = fst (parseString ext np s)"
  by (cases "parseString ext np s") (auto simp: slot_def)

text \<open>Claim C9: \<^verbatim>\<open>ParseFile\<close> returns a result for every path, with no panic, and
  the result is the merge of three slots, one for the full path, one for the file
  name without its extension and one for the base of the directory. The slot of a
  form is the result of its parse, or the zero \<^verbatim>\<open>ParseResult\<close> when that parse
  failed: a failure empties the slot of its own form only, and the other forms
  still contribute. So a field that no form determines is zero: without a match
  of the full path the original name, the rule name and the score are zero;
  without a match of the file name and of the directory the eight merged fields
  are empty; without any match the result is the zero \<^verbatim>\<open>ParseResult\<close> with the
  quality set.\<close>

theorem ParseFile_total:
  "\<exists>r dirName fileName0 fileName.
     ParseFile ext np name = Inr r \<and>
     filepath_Split name = (dirName, fileName0) \<and>
     stripExtension fileName0 = Inr fileName \<and>
     r = (slot ext np name)
           \<lparr> AirDate := AirDate (slot ext np fileName),
             AbsoluteEpisodeNumbers :=
               if AbsoluteEpisodeNumbers (slot ext np fileName) \<noteq> []
               then AbsoluteEpisodeNumbers (slot ext np fileName)
               else AbsoluteEpisodeNumbers (slot ext np (filepath_Base dirName)),
             SeasonNumber :=
               if SeasonNumber (slot ext np fileName) \<noteq> 0
               then SeasonNumber (slot ext np fileName)
               else SeasonNumber (slot ext np (filepath_Base dirName)),
             EpisodeNumbers :=
               if EpisodeNumbers (slot ext np fileName) \<noteq> []
               then EpisodeNumbers (slot ext np fileName)
               else EpisodeNumbers (slot ext np (filepath_Base dirName)),
             SeriesName :=
               if SeriesName (slot ext np (filepath_Base dirName)) \<noteq> []
               then SeriesName (slot ext np (filepath_Base dirName))
               else SeriesName (slot ext np fileName),
             ExtraInfo :=
               if ExtraInfo (slot ext np (filepath_Base dirName)) \<noteq> []
               then ExtraInfo (slot ext np (filepath_Base dirName))
               else ExtraInfo (slot ext np fileName),
             ReleaseGroup :=
               if ReleaseGroup (slot ext np (filepath_Base dirName)) \<noteq> []
               then ReleaseGroup (slot ext np (filepath_Base dirName))
               else ReleaseGroup (slot ext np fileName),
             Version :=
               if Version (slot ext np (filepath_Base dirName)) \<noteq> []
               then Version (slot ext np (filepath_Base dirName))
               else Version (slot ext np fileName),
             Quality := QualityFromName ext name False \<rparr> \<and>
     (snd (parseString ext np name) \<noteq> None \<longrightarrow>
        slot ext np name = ParseResult_zero ext \<and>
        OriginalName r = [] \<and> RegexUsed r = [] \<and> Score r = 0) \<and>
     (snd (parseString ext np name) = None \<longrightarrow>
        slot ext np name = fst (parseString ext np name)) \<and>
     (snd (parseString ext np fileName) \<noteq> None \<longrightarrow>
        slot ext np fileName = ParseResult_zero ext) \<and>
     (snd (parseString ext np fileName) = None \<longrightarrow>
        slot ext np fileName = fst (parseString ext np fileName)) \<and>
     (snd (parseString ext np (filepath_Base dirName)) \<noteq> None \<longrightarrow>
        slot ext np (filepath_Base dirName) = ParseResult_zero ext) \<and>
     (snd (parseString ext np (filepath_Base dirName)) = None \<longrightarrow>
        slot ext np (filepath_Base dirName) = fst (parseString ext np (filepath_Base dirName))) \<and>
     (snd (parseString ext np fileName) \<noteq> None \<and>
      snd (parseString ext np (filepath_Base dirName)) \<noteq> None \<longrightarrow>
        AirDate r = time_zero ext \<and> AbsoluteEpisodeNumbers r = [] \<and> SeasonNumber r = 0 \<and>
        EpisodeNumbers r = [] \<and> SeriesName r = [] \<and> ExtraInfo r = [] \<and>
        ReleaseGroup r = [] \<and> Version r = [] \<and>
        (snd (parseString ext np name) \<noteq> None \<longrightarrow>
           r = (ParseResult_zero ext)\<lparr>Quality := QualityFromName ext name False\<rparr>))"
proof -
  obtain d f0 where split: "filepath_Split name = (d, f0)" by (cases "filepath_Split name")
  obtain f where strip: "stripExtension f0 = Inr f" using stripExtension_Inr by blast
  note m = ParseFile_merged [OF split strip, of ext np]
  let ?r = "projr (ParseFile ext np name)"
  have is_r: "ParseFile ext np name = Inr ?r" by (simp add: m)
  have eq: "?r = (slot ext np name)
           \<lparr> AirDate := AirDate (slot ext np f),
             AbsoluteEpisodeNumbers :=
               if AbsoluteEpisodeNumbers (slot ext np f) \<noteq> []
               then AbsoluteEpisodeNumbers (slot ext np f)
               else AbsoluteEpisodeNumbers (slot ext np (filepath_Base d)),
             SeasonNumber :=
               if SeasonNumber (slot ext np f) \<noteq> 0
               then SeasonNumber (slot ext np f)
               else SeasonNumber (slot ext np (filepath_Base d)),
             EpisodeNumbers :=
               if EpisodeNumbers (slot ext np f) \<noteq> []
               then EpisodeNumbers (slot ext np f)
               else EpisodeNumbers (slot ext np (filepath_Base d)),
             SeriesName :=
               if SeriesName (slot ext np (filepath_Base d)) \<noteq> []
               then SeriesName (slot ext np (filepath_Base d))
               else SeriesName (slot ext np f),
             ExtraInfo :=
               if ExtraInfo (slot ext np (filepath_Base d)) \<noteq> []
               then ExtraInfo (slot ext np (filepath_Base d))
               else ExtraInfo (slot ext np f),
             ReleaseGroup :=
               if ReleaseGroup (slot ext np (filepath_Base d)) \<noteq> []
               then ReleaseGroup (slot ext np (filepath_Base d))
               else ReleaseGroup (slot ext np f),
             Version :=
               if Version (slot ext np (filepath_Base d)) \<noteq> []
               then Version (slot ext np (filepath_Base d))
               else Version (slot ext np f),
             Quality := QualityFromName ext name False \<rparr>"
    by (simp only: m slot_fst sum.sel)
  have full: "OriginalName ?r = [] \<and> RegexUsed ?r = [] \<and> Score ?r = 0"
    if "snd (parseString ext np name) \<noteq> None"
    using parseString_error_fst [OF that] by (simp add: m ParseResult_zero_def)
  have slots: "AirDate ?r = time_zero ext \<and> AbsoluteEpisodeNumbers ?r = [] \<and>
               SeasonNumber ?r = 0 \<and> EpisodeNumbers ?r = [] \<and> SeriesName ?r = [] \<and>
               ExtraInfo ?r = [] \<and> ReleaseGroup ?r = [] \<and> Version ?r = []"
    if "snd (parseString ext np f) \<noteq> None" "snd (parseString ext np (filepath_Base d)) \<noteq> None"
    using parseString_error_fst [OF that(1)] parseString_error_fst [OF that(2)]
    by (simp add: m ParseResult_zero_def)
  have all: "?r = (ParseResult_zero ext)\<lparr>Quality := QualityFromName ext name False\<rparr>"
    if "snd (parseString ext np f) \<noteq> None" "snd (parseString ext np (filepath_Base d)) \<noteq> None"
       "snd (parseString ext np name) \<noteq> None"
    using parseString_error_fst [OF that(1)] parseString_error_fst [OF that(2)]
          parseString_error_fst [OF that(3)]
    by (simp add: m ParseResult_zero_def)
  show ?thesis
    apply (rule exI [of _ ?r], rule exI [of _ d], rule exI [of _ f0], rule exI [of _ f])
    apply (intro conjI impI)
    using is_r split strip eq full slots all
    apply (simp_all add: slot_failed slot_matched)
    done
qed

lemma forms_none:
  "filepath_Split ''/x/y.mkv'' = (''/x/'', ''y.mkv'')"
  "stripExtension ''y.mkv'' = Inr ''y''"
  "filepath_Base ''/x/'' = ''x''"
  by code_simp+

lemma parses_none:
  "snd (parseString ext0 np_full ''/x/y.mkv'') = Some (Errorf ''Couldn't parse string /x/y.mkv'')"
  "snd (parseString ext0 np_full ''y'') = Some (Errorf ''Couldn't parse string y'')"
  "snd (parseString ext0 np_full ''x'') = Some (Errorf ''Couldn't parse string x'')"
  by code_simp+

lemma forms_show:
  "filepath_Split ''/tv/Show.S01/zzz.mkv'' = (''/tv/Show.S01/'', ''zzz.mkv'')"
  "stripExtension ''zzz.mkv'' = Inr ''zzz''"
  "filepath_Base ''/tv/Show.S01/'' = ''Show.S01''"
  by code_simp+

lemma parses_show:
  "snd (parseString ext0 np_show ''/tv/Show.S01/zzz.mkv'') =
     Some (Errorf ''Couldn't parse string /tv/Show.S01/zzz.mkv'')"
  "snd (parseString ext0 np_show ''zzz'') = Some (Errorf ''Couldn't parse string zzz'')"
  "parseString ext0 np_show ''Show.S01'' = (parsed_show, None)"
  by code_simp+

theorem ParseFile_total_witness:
  "filepath_Split ''/tv/Show.S01/zzz.mkv'' = (''/tv/Show.S01/'', ''zzz.mkv'') \<and>
   stripExtension ''zzz.mkv'' = Inr ''zzz'' \<and>
   snd (parseString ext0 np_show ''/tv/Show.S01/zzz.mkv'') \<noteq> None \<and>
   snd (parseString ext0 np_show ''zzz'') \<noteq> None \<and>
   parseString ext0 np_show (filepath_Base ''/tv/Show.S01/'') = (parsed_show, None) \<and>
   ParseFile ext0 np_show ''/tv/Show.S01/zzz.mkv'' = Inr merged_show \<and>
   SeriesName merged_show = ''Show'' \<and> SeasonNumber merged_show = 1 \<and>
   filepath_Split ''/x/y.mkv'' = (''/x/'', ''y.mkv'') \<and>
   stripExtension ''y.mkv'' = Inr ''y'' \<and>
   snd (parseString ext0 np_full ''/x/y.mkv'') \<noteq> None \<and>
   snd (parseString ext0 np_full ''y'') \<noteq> None \<and>
   snd (parseString ext0 np_full (filepath_Base ''/x/'')) \<noteq> None \<and>
   ParseFile ext0 np_full ''/x/y.mkv'' =
     Inr \<lparr> OriginalName = [], SeriesName = [], SeasonNumber = 0, EpisodeNumbers = [],
           ExtraInfo = [], ReleaseGroup = [], AirDate = (1, 1, 1),
           AbsoluteEpisodeNumbers = [], Score = 0, Quality = 1, Version = [],
           RegexUsed = [] \<rparr>"
proof -
  have h: "snd (parseString ext0 np_full ''/x/y.mkv'') \<noteq> None"
    "snd (parseString ext0 np_full ''y'') \<noteq> None"
    "snd (parseString ext0 np_full (filepath_Base ''/x/'')) \<noteq> None"
    by (simp_all add: parses_none forms_none)
  have g: "snd (parseString ext0 np_show ''/tv/Show.S01/zzz.mkv'') \<noteq> None"
    "snd (parseString ext0 np_show ''zzz'') \<noteq> None"
    "parseString ext0 np_show (filepath_Base ''/tv/Show.S01/'') = (parsed_show, None)"
    by (simp_all add: parses_show forms_show)
  have q: "QualityFromName ext0 ''/x/y.mkv'' False = 1"
    "QualityFromName ext0 ''/tv/Show.S01/zzz.mkv'' False = 1"
    by code_simp+
  from ParseFile_total [of ext0 np_full "''/x/y.mkv''"] obtain r dirName fileName0 fileName where
    r: "ParseFile ext0 np_full ''/x/y.mkv'' = Inr r"
    and sp: "filepath_Split ''/x/y.mkv'' = (dirName, fileName0)"
    and st: "stripExtension fileName0 = Inr fileName"
    and z: "snd (parseString ext0 np_full fileName) \<noteq> None \<and>
            snd (parseString ext0 np_full (filepath_Base dirName)) \<noteq> None \<longrightarrow>
            (snd (parseString ext0 np_full ''/x/y.mkv'') \<noteq> None \<longrightarrow>
               r = (ParseResult_zero ext0)\<lparr>Quality := QualityFromName ext0 ''/x/y.mkv'' False\<rparr>)"
    by blast
  from sp st forms_none have "dirName = ''/x/''" "fileName = ''y''" by simp_all
  with z h have
    "r = (ParseResult_zero ext0)\<lparr>Quality := QualityFromName ext0 ''/x/y.mkv'' False\<rparr>"
    by blast
  then have r1: "r = \<lparr> OriginalName = [], SeriesName = [], SeasonNumber = 0, EpisodeNumbers = [],
           ExtraInfo = [], ReleaseGroup = [], AirDate = (1, 1, 1),
           AbsoluteEpisodeNumbers = [], Score = 0, Quality = 1, Version = [],
           RegexUsed = [] \<rparr>"
    by (simp add: q ParseResult_zero_def ext0_def)
  from ParseFile_total [of ext0 np_show "''/tv/Show.S01/zzz.mkv''"]
  obtain r' dirName' fileName0' fileName' where
    r': "ParseFile ext0 np_show ''/tv/Show.S01/zzz.mkv'' = Inr r'"
    and sp': "filepath_Split ''/tv/Show.S01/zzz.mkv'' = (dirName', fileName0')"
    and st': "stripExtension fileName0' = Inr fileName'"
    and eq': "r' = (slot ext0 np_show ''/tv/Show.S01/zzz.mkv'')
           \<lparr> AirDate := AirDate (slot ext0 np_show fileName'),
             AbsoluteEpisodeNumbers :=
               if AbsoluteEpisodeNumbers (slot ext0 np_show fileName') \<noteq> []
               then AbsoluteEpisodeNumbers (slot ext0 np_show fileName')
               else AbsoluteEpisodeNumbers (slot ext0 np_show (filepath_Base dirName')),
             SeasonNumber :=
               if SeasonNumber (slot ext0 np_show fileName') \<noteq> 0
               then SeasonNumber (slot ext0 np_show fileName')
               else SeasonNumber (slot ext0 np_show (filepath_Base dirName')),
             EpisodeNumbers :=
               if EpisodeNumbers (slot ext0 np_show fileName') \<noteq> []
               then EpisodeNumbers (slot ext0 np_show fileName')
               else EpisodeNumbers (slot ext0 np_show (filepath_Base dirName')),
             SeriesName :=
               if SeriesName (slot ext0 np_show (filepath_Base dirName')) \<noteq> []
               then SeriesName (slot ext0 np_show (filepath_Base dirName'))
               else SeriesName (slot ext0 np_show fileName'),
             ExtraInfo :=
               if ExtraInfo (slot ext0 np_show (filepath_Base dirName')) \<noteq> []
               then ExtraInfo (slot ext0 np_show (filepath_Base dirName'))
               else ExtraInfo (slot ext0 np_show fileName'),
             ReleaseGroup :=
               if ReleaseGroup (slot ext0 np_show (filepath_Base dirName')) \<noteq> []
               then ReleaseGroup (slot ext0 np_show (filepath_Base dirName'))
               else ReleaseGroup (slot ext0 np_show fileName'),
             Version :=
               if Version (slot ext0 np_show (filepath_Base dirName')) \<noteq> []
               then Version (slot ext0 np_show (filepath_Base dirName'))
               else Version (slot ext0 np_show fileName'),
             Quality := QualityFromName ext0 ''/tv/Show.S01/zzz.mkv'' False \<rparr>"
    by (elim exE conjE) (rule that, assumption+)
  from sp' st' forms_show have n: "dirName' = ''/tv/Show.S01/''" "fileName' = ''zzz''"
    by simp_all
  from g have sl: "slot ext0 np_show ''/tv/Show.S01/zzz.mkv'' = ParseResult_zero ext0"
    "slot ext0 np_show ''zzz'' = ParseResult_zero ext0"
    "slot ext0 np_show (filepath_Base ''/tv/Show.S01/'') = parsed_show"
    by (simp_all add: slot_failed slot_matched)
  have r2: "r' = merged_show"
    unfolding eq' n sl
    by (simp add: q ParseResult_zero_def parsed_show_def merged_show_def ext0_def)
  have m: "SeriesName merged_show = ''Show''" "SeasonNumber merged_show = 1"
    by (simp_all add: merged_show_def)
  show ?thesis
    using r r1 r' r2 h g m forms_none forms_show by simp
qed

end
